theory Spec2Isabelle
  imports Main
begin

section \<open>Values, rows and the database\<close>

text \<open>
  The fields of a JSON request body, as the handlers of \<^verbatim>\<open>server.js\<close> read them:
  a field that is absent reads as \<open>Undefined\<close>, a JSON \<^verbatim>\<open>null\<close> as \<open>Null\<close>, a JSON string
  as \<open>Str\<close>, held as the bytes of its UTF-8 encoding, which is how it reaches PostgreSQL
  and \<^verbatim>\<open>bcrypt\<close>. A JSON number, boolean, array or object is \<open>NonString t s\<close>, given by the two
  things the handlers and the libraries make of it: \<open>t\<close>, whether it is truthy (all are
  but \<^verbatim>\<open>0\<close> and \<^verbatim>\<open>false\<close>), and \<open>s\<close>, the text that node-postgres sends for it as a query
  parameter (\<^verbatim>\<open>val.toString()\<close> for a number or a boolean). The number \<^verbatim>\<open>1\<close> is
  \<open>NonString True ''1''\<close>, \<^verbatim>\<open>false\<close> is \<open>NonString False ''false''\<close>.
\<close>

datatype jsval = Undefined | Null | Str string | NonString bool string

text \<open>JavaScript truthiness, as used by \<^verbatim>\<open>!x\<close>: the empty string is falsy.\<close>

fun truthy :: "jsval \<Rightarrow> bool" where
  "truthy Undefined = False"
| "truthy Null = False"
| "truthy (Str s) = (s \<noteq> [])"
| "truthy (NonString t s) = t"

text \<open>
  A value passed as a query parameter: node-postgres sends both \<^verbatim>\<open>undefined\<close> and
  \<^verbatim>\<open>null\<close> as SQL NULL, a string as it is, and any other value as its text.
\<close>

fun pg_param :: "jsval \<Rightarrow> string option" where
  "pg_param Undefined = None"
| "pg_param Null = None"
| "pg_param (Str s) = Some s"
| "pg_param (NonString t s) = Some s"

text \<open>
  PostgreSQL refuses a text parameter that holds the character U+0000 (error 22021), whatever
  the statement: a query is run only when each of its text parameters is acceptable.
\<close>

definition has_nul :: "string \<Rightarrow> bool" where
  "has_nul s = (CHR 0x00 \<in> set s)"

definition texts_accepted :: "string option list \<Rightarrow> bool" where
  "texts_accepted ps = list_all (\<lambda>p. case p of None \<Rightarrow> True | Some s \<Rightarrow> \<not> has_nul s) ps"

text \<open>The tables, with the columns of the \<^verbatim>\<open>CREATE TABLE\<close> statements of the source.
  A column without \<^verbatim>\<open>NOT NULL\<close> holds an option.\<close>

record user_row =
  u_id :: int
  u_username :: string
  u_email :: string
  u_password :: string
  u_name :: string

record idea_row =
  i_id :: int
  i_title :: string
  i_description :: "string option"
  i_short_description :: "string option"
  i_area :: "string option"
  i_status :: "string option"
  i_user_id :: int
  i_created_at :: "nat option"

record comment_row =
  c_id :: int
  c_idea_id :: int
  c_user_id :: int
  c_username :: string
  c_comment :: string
  c_created_at :: "nat option"
  c_parent_id :: "int option"

text \<open>
  The database: a table that has not been created is \<open>None\<close>, and every statement on it
  fails. Rows are kept in insertion order. The two counters are the sequences behind the
  \<^verbatim>\<open>SERIAL\<close> keys of \<^verbatim>\<open>users\<close> and \<^verbatim>\<open>ideas\<close>.
\<close>

record db =
  users :: "user_row list option"
  users_id_seq :: int
  ideas :: "idea_row list option"
  ideas_id_seq :: int
  comments :: "comment_row list option"

text \<open>What a rejected \<^verbatim>\<open>db.query\<close>, a failed \<^verbatim>\<open>jwt.verify\<close> or a \<^verbatim>\<open>throw\<close> carries.\<close>

datatype error =
    UndefinedTable string
  | UndefinedColumn string
  | InvalidTextRepresentation
  | NumericValueOutOfRange
  | CharacterNotInRepertoire
  | SequenceGeneratorLimitExceeded
  | ProgramLimitExceeded
  | NotNullViolation string
  | UniqueViolation string
  | ForeignKeyViolation string
  | JsonWebTokenError
  | Error string
  | ReferenceError string

text \<open>
  The libraries and the clock, as one request sees them: \<^verbatim>\<open>bcrypt.hash(p, 10)\<close> and
  \<^verbatim>\<open>bcrypt.compare(p, h)\<close> for a string \<open>p\<close>, \<^verbatim>\<open>jwt.sign({id}, JWT_SECRET, {expiresIn: "1h"})\<close>,
  \<^verbatim>\<open>jwt.verify(token, JWT_SECRET)\<close> (\<open>None\<close> when it throws, otherwise the \<^verbatim>\<open>id\<close> of
  the payload) and \<^verbatim>\<open>new Date()\<close>. They are parameters of the model. So is
  \<open>index_fits\<close>: whether a unique index of PostgreSQL takes a text as a key, which it does
  unless the entry, after compression, is too long for a page of the index (error 54000).
\<close>

record env =
  bcrypt_hash :: "string \<Rightarrow> string"
  bcrypt_compare :: "string \<Rightarrow> string \<Rightarrow> bool"
  jwt_sign :: "int \<Rightarrow> string"
  jwt_verify :: "string \<Rightarrow> int option"
  now :: nat
  index_fits :: "string \<Rightarrow> bool"

section \<open>Requests and responses\<close>

text \<open>
  A request: the \<^verbatim>\<open>Authorization\<close> header, the path parameter \<^verbatim>\<open>:id\<close> and the body.
  The path parameter is text that PostgreSQL reads as an INTEGER when it is compared with a key:
  \<open>Some k\<close> is a segment that is a numeral of the integer \<open>k\<close>, \<open>None\<close> a segment that is
  not a numeral, such as \<^verbatim>\<open>abc\<close>.
\<close>

record request =
  authorization :: "string option"
  params_id :: "int option"
  body :: "string \<Rightarrow> jsval"

text \<open>The user that \<^verbatim>\<open>authenticateToken\<close> attaches as \<^verbatim>\<open>req.user\<close>.\<close>

record req_user =
  ru_id :: int
  ru_username :: string
  ru_email :: string

text \<open>
  The JSON bodies the modelled handlers send. \<open>IdeaOwner i uid name username\<close> is a row of
  the join of \<^verbatim>\<open>GET /api/ideas/:id\<close>: the selected columns of the idea, then
  \<^verbatim>\<open>u.id AS user_id\<close>, \<^verbatim>\<open>u.name\<close>, \<^verbatim>\<open>u.username\<close>. \<open>NoBody\<close> is what
  \<^verbatim>\<open>res.json(undefined)\<close> sends.
\<close>

datatype json =
    Message string
  | Success
  | Token string
  | Idea idea_row
  | IdeaOwner idea_row int string string
  | NoBody

datatype response = Response (status_code: nat) (payload: json)

definition handleError :: "error \<Rightarrow> response" where
  "handleError err = Response 500 (Message ''Server error.'')"

section \<open>Queries\<close>

text \<open>The values of an \<^verbatim>\<open>INTEGER\<close> column, and of a \<^verbatim>\<open>SERIAL\<close> key: 32 bits.\<close>

definition int4 :: "int \<Rightarrow> bool" where
  "int4 k = (- 2147483648 \<le> k \<and> k \<le> 2147483647)"

text \<open>
  A parameter compared with an \<^verbatim>\<open>INTEGER\<close> column: PostgreSQL rejects the query when the
  text is not a numeral (error 22P02) or the number is out of the range of the type (22003).
\<close>

definition pg_int :: "int option \<Rightarrow> error + int" where
  "pg_int p =
     (case p of
        None \<Rightarrow> Inl InvalidTextRepresentation
      | Some k \<Rightarrow> if int4 k then Inr k else Inl NumericValueOutOfRange)"

text \<open>\<^verbatim>\<open>SELECT id, username, email FROM users WHERE id = $1\<close>, with the \<^verbatim>\<open>id\<close> of a
  token's payload.\<close>

definition select_users_by_id :: "db \<Rightarrow> int \<Rightarrow> error + user_row list" where
  "select_users_by_id d pid =
     (case users d of
        None \<Rightarrow> Inl (UndefinedTable ''users'')
      | Some rows \<Rightarrow>
          (case pg_int (Some pid) of
             Inl err \<Rightarrow> Inl err
           | Inr k \<Rightarrow> Inr (filter (\<lambda>u. u_id u = k) rows)))"

text \<open>\<^verbatim>\<open>SELECT id FROM users WHERE username = $1 OR email = $2\<close>. A NULL parameter is equal
  to nothing.\<close>

definition select_users_by_username_or_email ::
  "db \<Rightarrow> string option \<Rightarrow> string option \<Rightarrow> error + user_row list" where
  "select_users_by_username_or_email d username email =
     (case users d of
        None \<Rightarrow> Inl (UndefinedTable ''users'')
      | Some rows \<Rightarrow>
          if \<not> texts_accepted [username, email] then Inl CharacterNotInRepertoire
          else Inr (filter (\<lambda>u. Some (u_username u) = username \<or> Some (u_email u) = email)
                      rows))"

text \<open>\<^verbatim>\<open>SELECT id, password FROM users WHERE email = $1\<close>.\<close>

definition select_users_by_email :: "db \<Rightarrow> string option \<Rightarrow> error + user_row list" where
  "select_users_by_email d email =
     (case users d of
        None \<Rightarrow> Inl (UndefinedTable ''users'')
      | Some rows \<Rightarrow>
          if \<not> texts_accepted [email] then Inl CharacterNotInRepertoire
          else Inr (filter (\<lambda>u. Some (u_email u) = email) rows))"

text \<open>One assignment of \<^verbatim>\<open>UPDATE ideas SET column = $n\<close>, on one row.\<close>

definition set_column :: "string \<times> jsval \<Rightarrow> idea_row \<Rightarrow> idea_row" where
  "set_column a r =
     (if fst a = ''short_description'' then r\<lparr>i_short_description := pg_param (snd a)\<rparr>
      else if fst a = ''description'' then r\<lparr>i_description := pg_param (snd a)\<rparr>
      else if fst a = ''status'' then r\<lparr>i_status := pg_param (snd a)\<rparr>
      else r)"

definition known_column :: "string \<times> jsval \<Rightarrow> bool" where
  "known_column a = (fst a \<in> set [''short_description'', ''description'', ''status''])"

text \<open>
  \<^verbatim>\<open>UPDATE ideas SET ... WHERE id = $k RETURNING *\<close>: the assignments are applied in order to
  every row with the key, and the updated rows are returned. None of the three columns
  carries a constraint; the values are text parameters and the key an integer one.
\<close>

definition update_ideas ::
  "db \<Rightarrow> (string \<times> jsval) list \<Rightarrow> int option \<Rightarrow> error + (idea_row list \<times> db)" where
  "update_ideas d assignments p =
     (case ideas d of
        None \<Rightarrow> Inl (UndefinedTable ''ideas'')
      | Some rows \<Rightarrow>
          (case filter (\<lambda>a. \<not> known_column a) assignments of
             a # _ \<Rightarrow> Inl (UndefinedColumn (fst a))
           | [] \<Rightarrow>
               if \<not> texts_accepted (map (\<lambda>a. pg_param (snd a)) assignments)
               then Inl CharacterNotInRepertoire
               else
                 (case pg_int p of
                    Inl err \<Rightarrow> Inl err
                  | Inr k \<Rightarrow>
                      let upd = (\<lambda>r. fold set_column assignments r) in
                      Inr (map upd (filter (\<lambda>r. i_id r = k) rows),
                           d\<lparr>ideas := Some (map (\<lambda>r. if i_id r = k then upd r else r)
                                               rows)\<rparr>))))"

section \<open>The authentication middleware\<close>

definition starts_with :: "string \<Rightarrow> string \<Rightarrow> bool" where
  "starts_with s p = (take (length p) s = p)"

text \<open>\<^verbatim>\<open>s.split(c)\<close> of JavaScript, for a one-character separator.\<close>

fun split :: "string \<Rightarrow> char \<Rightarrow> string list" where
  "split [] c = [[]]"
| "split (x # xs) c =
     (if x = c then [] # split xs c
      else (case split xs c of [] \<Rightarrow> [[x]] | w # ws \<Rightarrow> (x # w) # ws))"

text \<open>
  The \<^verbatim>\<open>try\<close> block of \<^verbatim>\<open>authenticateToken\<close>: the token is the second piece of the
  header; an absent piece is \<^verbatim>\<open>undefined\<close>, which \<^verbatim>\<open>jwt.verify\<close> rejects.
\<close>

definition load_user :: "env \<Rightarrow> db \<Rightarrow> string \<Rightarrow> error + req_user" where
  "load_user e d auth =
     (case split auth CHR '' '' of
        _ # token # _ \<Rightarrow>
          (case jwt_verify e token of
             None \<Rightarrow> Inl JsonWebTokenError
           | Some pid \<Rightarrow>
               (case select_users_by_id d pid of
                  Inl err \<Rightarrow> Inl err
                | Inr [] \<Rightarrow> Inl (Error ''No such user'')
                | Inr (u # _) \<Rightarrow>
                    Inr \<lparr>ru_id = u_id u, ru_username = u_username u, ru_email = u_email u\<rparr>))
      | _ \<Rightarrow> Inl JsonWebTokenError)"

text \<open>\<open>Inl\<close> is the response the middleware sends itself; \<open>Inr\<close> is \<^verbatim>\<open>req.user\<close>, with
  which \<^verbatim>\<open>next()\<close> runs the handler.\<close>

definition authenticateToken :: "env \<Rightarrow> db \<Rightarrow> request \<Rightarrow> response + req_user" where
  "authenticateToken e d req =
     (case authorization req of
        None \<Rightarrow> Inl (Response 401 (Message ''Missing or invalid token.''))
      | Some auth \<Rightarrow>
          if \<not> starts_with auth ''Bearer ''
          then Inl (Response 401 (Message ''Missing or invalid token.''))
          else (case load_user e d auth of
                  Inl err \<Rightarrow> Inl (Response 401 (Message ''Invalid or expired token.''))
                | Inr user \<Rightarrow> Inr user))"

section \<open>PATCH /api/ideas/:id\<close>

text \<open>A destructuring default: it replaces \<^verbatim>\<open>undefined\<close> only.\<close>

definition default_to :: "jsval \<Rightarrow> jsval \<Rightarrow> jsval" where
  "default_to v dv = (if v = Undefined then dv else v)"

text \<open>
  The field list of the update. The source keeps two parallel arrays, \<^verbatim>\<open>fields\<close> with the
  text \<^verbatim>\<open>column = $idx\<close> and \<^verbatim>\<open>values\<close>; here one list pairs each column with its value,
  and \<^verbatim>\<open>idx\<close> is the position in it (\<open>flds\<close> stands for both arrays).
\<close>

definition patch_fields :: "(string \<Rightarrow> jsval) \<Rightarrow> (string \<times> jsval) list" where
  "patch_fields b =
     (let short_description = default_to (b ''short_description'') (Str []);
          description = default_to (b ''description'') (Str []);
          status = default_to (b ''status'') (Str []);
          flds = [];
          flds = (if short_description \<noteq> Undefined
                  then flds @ [(''short_description'', short_description)] else flds);
          flds = (if description \<noteq> Undefined
                  then flds @ [(''description'', description)] else flds);
          flds = (if status \<noteq> Undefined
                  then flds @ [(''status'', status)] else flds)
      in flds)"

text \<open>The handler proper, run with \<^verbatim>\<open>req.user\<close> set; it never reads \<^verbatim>\<open>req.user\<close>.\<close>

definition patch_idea :: "db \<Rightarrow> request \<Rightarrow> req_user \<Rightarrow> response \<times> db" where
  "patch_idea d req user =
     (let flds = patch_fields (body req) in
      if length flds = 0 then (Response 400 (Message ''No fields to update.''), d)
      else (case update_ideas d flds (params_id req) of
              Inl err \<Rightarrow> (handleError err, d)
            | Inr (rows, d') \<Rightarrow>
                (case rows of
                   [] \<Rightarrow> (Response 200 NoBody, d')
                 | r # _ \<Rightarrow> (Response 200 (Idea r), d'))))"

text \<open>The route: the middleware, then the handler.\<close>

definition patch_api_ideas_id :: "env \<Rightarrow> db \<Rightarrow> request \<Rightarrow> response \<times> db" where
  "patch_api_ideas_id e d req =
     (case authenticateToken e d req of
        Inl r \<Rightarrow> (r, d)
      | Inr user \<Rightarrow> patch_idea d req user)"

section \<open>POST /api/register and POST /api/login\<close>

text \<open>
  \<^verbatim>\<open>INSERT INTO users (username, email, password, name) VALUES ($1, $2, $3, $4)\<close>.
  The key is the next value of the sequence, which is consumed even when the row is then
  refused; the sequence of a \<^verbatim>\<open>SERIAL\<close> column ends with the range of \<^verbatim>\<open>INTEGER\<close>.
  The four columns are \<^verbatim>\<open>NOT NULL\<close>; \<^verbatim>\<open>id\<close>, \<^verbatim>\<open>username\<close> and \<^verbatim>\<open>email\<close> are
  unique, each through an index that the new row must enter.
\<close>

definition insert_user ::
  "env \<Rightarrow> db \<Rightarrow> string option \<Rightarrow> string option \<Rightarrow> string option \<Rightarrow> string option
     \<Rightarrow> (error + unit) \<times> db" where
  "insert_user e d username email password name =
     (case users d of
        None \<Rightarrow> (Inl (UndefinedTable ''users''), d)
      | Some rows \<Rightarrow>
          if \<not> texts_accepted [username, email, password, name]
          then (Inl CharacterNotInRepertoire, d)
          else if \<not> int4 (users_id_seq d + 1)
          then (Inl SequenceGeneratorLimitExceeded, d)
          else
          let k = users_id_seq d + 1; d1 = d\<lparr>users_id_seq := k\<rparr> in
          (case (username, email, password, name) of
             (Some un, Some em, Some pw, Some nm) \<Rightarrow>
               if list_ex (\<lambda>u. u_id u = k) rows
               then (Inl (UniqueViolation ''users_pkey''), d1)
               else if \<not> index_fits e un
               then (Inl ProgramLimitExceeded, d1)
               else if list_ex (\<lambda>u. u_username u = un) rows
               then (Inl (UniqueViolation ''users_username_key''), d1)
               else if \<not> index_fits e em
               then (Inl ProgramLimitExceeded, d1)
               else if list_ex (\<lambda>u. u_email u = em) rows
               then (Inl (UniqueViolation ''users_email_key''), d1)
               else (Inr (),
                     d1\<lparr>users := Some (rows @
                       [\<lparr>u_id = k, u_username = un, u_email = em,
                         u_password = pw, u_name = nm\<rparr>])\<rparr>)
           | _ \<Rightarrow> (Inl (NotNullViolation ''users''), d1)))"

text \<open>
  \<^verbatim>\<open>bcrypt.hash(data, 10)\<close> and \<^verbatim>\<open>bcrypt.compare(data, hash)\<close>: the library rejects
  \<open>data\<close> that is not a string, and computes \<open>bcrypt_hash\<close> and \<open>bcrypt_compare\<close> of the
  environment for one that is.
\<close>

definition bcrypt_hash_call :: "env \<Rightarrow> jsval \<Rightarrow> error + string" where
  "bcrypt_hash_call e data =
     (case data of
        Str s \<Rightarrow> Inr (bcrypt_hash e s)
      | _ \<Rightarrow> Inl (Error ''data must be a string or Buffer''))"

definition bcrypt_compare_call :: "env \<Rightarrow> jsval \<Rightarrow> string \<Rightarrow> error + bool" where
  "bcrypt_compare_call e data hash =
     (case data of
        Str s \<Rightarrow> Inr (bcrypt_compare e s hash)
      | _ \<Rightarrow> Inl (Error ''data and hash must be strings''))"

text \<open>The text that is sent for a value, the empty text for NULL: a way to name the text
  of a field that is known to be truthy.\<close>

definition text_of :: "jsval \<Rightarrow> string" where
  "text_of v = (case pg_param v of None \<Rightarrow> [] | Some s \<Rightarrow> s)"

definition post_api_register :: "env \<Rightarrow> db \<Rightarrow> request \<Rightarrow> response \<times> db" where
  "post_api_register e d req =
     (let username = body req ''username''; email = body req ''email'';
          password = body req ''password''; name = body req ''name'' in
      if \<not> truthy username \<or> \<not> truthy email \<or> \<not> truthy password \<or> \<not> truthy name
      then (Response 400 (Message ''All fields required.''), d)
      else
        (case select_users_by_username_or_email d (pg_param username) (pg_param email) of
           Inl err \<Rightarrow> (handleError err, d)
         | Inr existsRows \<Rightarrow>
             if length existsRows > 0
             then (Response 400 (Message ''Username or email taken.''), d)
             else
               (case bcrypt_hash_call e password of
                  Inl err \<Rightarrow> (handleError err, d)
                | Inr hash \<Rightarrow>
                    (case insert_user e d (pg_param username) (pg_param email) (Some hash)
                            (pg_param name) of
                       (Inl err, d') \<Rightarrow> (handleError err, d')
                     | (Inr _, d') \<Rightarrow> (Response 201 Success, d')))))"

definition post_api_login :: "env \<Rightarrow> db \<Rightarrow> request \<Rightarrow> response" where
  "post_api_login e d req =
     (let email = body req ''email''; password = body req ''password'' in
      if \<not> truthy email \<or> \<not> truthy password
      then Response 400 (Message ''Email & password required.'')
      else
        (case select_users_by_email d (pg_param email) of
           Inl err \<Rightarrow> handleError err
         | Inr [] \<Rightarrow> Response 400 (Message ''Invalid credentials.'')
         | Inr (user # _) \<Rightarrow>
             (case bcrypt_compare_call e password (u_password user) of
                Inl err \<Rightarrow> handleError err
              | Inr ok \<Rightarrow>
                  if \<not> ok then Response 400 (Message ''Invalid credentials.'')
                  else Response 200 (Token (jwt_sign e (u_id user))))))"

section \<open>POST /api/ideas and GET /api/ideas/:id\<close>

text \<open>
  A column of an \<^verbatim>\<open>INSERT\<close>: not in the column list, so that the \<^verbatim>\<open>DEFAULT\<close> of the
  table is stored, or listed with a value, which is stored as it is, NULL included.
\<close>

datatype 'a colspec = Unlisted | Listed 'a

definition stored :: "'a \<Rightarrow> 'a colspec \<Rightarrow> 'a" where
  "stored dflt c = (case c of Unlisted \<Rightarrow> dflt | Listed v \<Rightarrow> v)"

text \<open>
  \<^verbatim>\<open>INSERT INTO ideas\<close>, for the table with \<^verbatim>\<open>title TEXT NOT NULL\<close>,
  \<^verbatim>\<open>status TEXT DEFAULT 'New'\<close> and \<^verbatim>\<open>user_id INTEGER NOT NULL REFERENCES users(id)\<close>.
\<close>

definition insert_idea ::
  "db \<Rightarrow> string option \<Rightarrow> string option \<Rightarrow> string option \<Rightarrow> string option
     \<Rightarrow> string option colspec \<Rightarrow> int \<Rightarrow> nat \<Rightarrow> (error + unit) \<times> db" where
  "insert_idea d title description short_description area status user_id created_at =
     (case ideas d of
        None \<Rightarrow> (Inl (UndefinedTable ''ideas''), d)
      | Some rows \<Rightarrow>
          if \<not> texts_accepted
                 [title, description, short_description, area, stored None status]
          then (Inl CharacterNotInRepertoire, d)
          else if \<not> int4 (ideas_id_seq d + 1)
          then (Inl SequenceGeneratorLimitExceeded, d)
          else
          let k = ideas_id_seq d + 1; d1 = d\<lparr>ideas_id_seq := k\<rparr> in
          (case title of
             None \<Rightarrow> (Inl (NotNullViolation ''title''), d1)
           | Some t \<Rightarrow>
               if list_ex (\<lambda>r. i_id r = k) rows
               then (Inl (UniqueViolation ''ideas_pkey''), d1)
               else if \<not> (case users d of None \<Rightarrow> False
                           | Some us \<Rightarrow> list_ex (\<lambda>u. u_id u = user_id) us)
               then (Inl (ForeignKeyViolation ''ideas_user_id_fkey''), d1)
               else (Inr (),
                     d1\<lparr>ideas := Some (rows @
                       [\<lparr>i_id = k, i_title = t, i_description = description,
                         i_short_description = short_description, i_area = area,
                         i_status = stored (Some ''New'') status, i_user_id = user_id,
                         i_created_at = Some created_at\<rparr>])\<rparr>)))"

text \<open>
  The handler of \<^verbatim>\<open>POST /api/ideas\<close> has no \<^verbatim>\<open>try\<close>: a rejected query leaves it as the
  rejection of the handler's promise, \<open>Inl\<close> here. The statement lists the column
  \<^verbatim>\<open>status\<close> and passes \<^verbatim>\<open>status\<close> of the body for it. The file that
  \<^verbatim>\<open>upload.single("file")\<close> parses is never read.
\<close>

definition post_ideas :: "env \<Rightarrow> db \<Rightarrow> request \<Rightarrow> req_user \<Rightarrow> (error + response) \<times> db" where
  "post_ideas e d req user =
     (let title = body req ''title''; area = body req ''area'';
          description = body req ''description''; status = body req ''status'';
          short_description = body req ''short_description'' in
      if \<not> truthy title then (Inr (Response 400 (Message ''Title required.'')), d)
      else
        (case insert_idea d (pg_param title) (pg_param description)
                (pg_param short_description) (pg_param area) (Listed (pg_param status))
                (ru_id user) (now e) of
           (Inl err, d') \<Rightarrow> (Inl err, d')
         | (Inr _, d') \<Rightarrow> (Inr (Response 201 Success), d')))"

definition post_api_ideas :: "env \<Rightarrow> db \<Rightarrow> request \<Rightarrow> (error + response) \<times> db" where
  "post_api_ideas e d req =
     (case authenticateToken e d req of
        Inl r \<Rightarrow> (Inr r, d)
      | Inr user \<Rightarrow> post_ideas e d req user)"

text \<open>The join of \<^verbatim>\<open>GET /api/ideas/:id\<close>:
  \<^verbatim>\<open>FROM ideas i INNER JOIN users u ON i.user_id = u.id WHERE i.id = $1\<close>.\<close>

definition select_idea_owner :: "db \<Rightarrow> int option \<Rightarrow> error + (idea_row \<times> user_row) list" where
  "select_idea_owner d p =
     (case ideas d of
        None \<Rightarrow> Inl (UndefinedTable ''ideas'')
      | Some rows \<Rightarrow>
          (case users d of
             None \<Rightarrow> Inl (UndefinedTable ''users'')
           | Some us \<Rightarrow>
               (case pg_int p of
                  Inl err \<Rightarrow> Inl err
                | Inr k \<Rightarrow>
                    Inr (concat (map (\<lambda>i. map (\<lambda>u. (i, u))
                                              (filter (\<lambda>u. i_user_id i = u_id u) us))
                                     (filter (\<lambda>i. i_id i = k) rows))))))"

definition get_idea :: "db \<Rightarrow> request \<Rightarrow> req_user \<Rightarrow> response" where
  "get_idea d req user =
     (case select_idea_owner d (params_id req) of
        Inl err \<Rightarrow> handleError err
      | Inr [] \<Rightarrow> Response 404 (Message ''Idea not found.'')
      | Inr ((i, u) # _) \<Rightarrow> Response 200 (IdeaOwner i (u_id u) (u_name u) (u_username u)))"

definition get_api_ideas_id :: "env \<Rightarrow> db \<Rightarrow> request \<Rightarrow> response" where
  "get_api_ideas_id e d req =
     (case authenticateToken e d req of
        Inl r \<Rightarrow> r
      | Inr user \<Rightarrow> get_idea d req user)"

section \<open>DELETE /api/ideas/:id\<close>

definition select_ideas_by_id :: "db \<Rightarrow> int option \<Rightarrow> error + idea_row list" where
  "select_ideas_by_id d p =
     (case ideas d of
        None \<Rightarrow> Inl (UndefinedTable ''ideas'')
      | Some rows \<Rightarrow>
          (case pg_int p of
             Inl err \<Rightarrow> Inl err
           | Inr k \<Rightarrow> Inr (filter (\<lambda>r. i_id r = k) rows)))"

text \<open>
  \<^verbatim>\<open>DELETE FROM ideas WHERE id = $1\<close>. The table \<^verbatim>\<open>comments\<close> has
  \<^verbatim>\<open>idea_id INTEGER NOT NULL REFERENCES ideas(id)\<close>, with no \<^verbatim>\<open>ON DELETE\<close> action:
  the statement is refused while a comment refers to a row it deletes.
\<close>

definition delete_ideas_by_id :: "db \<Rightarrow> int option \<Rightarrow> error + db" where
  "delete_ideas_by_id d p =
     (case ideas d of
        None \<Rightarrow> Inl (UndefinedTable ''ideas'')
      | Some rows \<Rightarrow>
          (case pg_int p of
             Inl err \<Rightarrow> Inl err
           | Inr k \<Rightarrow>
               if (case comments d of None \<Rightarrow> False
                   | Some cs \<Rightarrow> list_ex (\<lambda>r. i_id r = k) rows \<and> list_ex (\<lambda>c. c_idea_id c = k) cs)
               then Inl (ForeignKeyViolation ''comments_idea_id_fkey'')
               else Inr (d\<lparr>ideas := Some (filter (\<lambda>r. i_id r \<noteq> k) rows)\<rparr>)))"

definition delete_idea :: "db \<Rightarrow> request \<Rightarrow> req_user \<Rightarrow> response \<times> db" where
  "delete_idea d req user =
     (case select_ideas_by_id d (params_id req) of
        Inl err \<Rightarrow> (handleError err, d)
      | Inr [] \<Rightarrow> (Response 403 (Message ''Not your idea.''), d)
      | Inr (existing # _) \<Rightarrow>
          if i_user_id existing \<noteq> ru_id user
          then (Response 403 (Message ''Not your idea.''), d)
          else (case delete_ideas_by_id d (params_id req) of
                  Inl err \<Rightarrow> (handleError err, d)
                | Inr d' \<Rightarrow> (Response 200 Success, d')))"

definition delete_api_ideas_id :: "env \<Rightarrow> db \<Rightarrow> request \<Rightarrow> response \<times> db" where
  "delete_api_ideas_id e d req =
     (case authenticateToken e d req of
        Inl r \<Rightarrow> (r, d)
      | Inr user \<Rightarrow> delete_idea d req user)"

section \<open>DELETE /api/comments/:id\<close>

definition select_comments_by_id :: "db \<Rightarrow> int option \<Rightarrow> error + comment_row list" where
  "select_comments_by_id d p =
     (case comments d of
        None \<Rightarrow> Inl (UndefinedTable ''comments'')
      | Some rows \<Rightarrow>
          (case pg_int p of
             Inl err \<Rightarrow> Inl err
           | Inr k \<Rightarrow> Inr (filter (\<lambda>c. c_id c = k) rows)))"

text \<open>
  \<^verbatim>\<open>DELETE FROM comments WHERE ...\<close>, for the rows that satisfy \<open>w\<close>. The table has
  \<^verbatim>\<open>parent_id INTEGER REFERENCES comments(id)\<close>, with no \<^verbatim>\<open>ON DELETE\<close> action: the
  statement is refused when a comment that stays refers to a comment that goes.
\<close>

definition delete_comments_where :: "db \<Rightarrow> (comment_row \<Rightarrow> bool) \<Rightarrow> error + db" where
  "delete_comments_where d w =
     (case comments d of
        None \<Rightarrow> Inl (UndefinedTable ''comments'')
      | Some rows \<Rightarrow>
          let gone = filter w rows; kept = filter (\<lambda>c. \<not> w c) rows in
          if list_ex (\<lambda>c. list_ex (\<lambda>g. c_parent_id c = Some (c_id g)) gone) kept
          then Inl (ForeignKeyViolation ''comments_parent_id_fkey'')
          else Inr (d\<lparr>comments := Some kept\<rparr>))"

definition delete_comments_by_id :: "db \<Rightarrow> int option \<Rightarrow> error + db" where
  "delete_comments_by_id d p =
     (case pg_int p of
        Inl err \<Rightarrow> Inl err
      | Inr k \<Rightarrow> delete_comments_where d (\<lambda>c. c_id c = k))"

definition delete_comments_by_parent_id :: "db \<Rightarrow> int option \<Rightarrow> error + db" where
  "delete_comments_by_parent_id d p =
     (case pg_int p of
        Inl err \<Rightarrow> Inl err
      | Inr k \<Rightarrow> delete_comments_where d (\<lambda>c. c_parent_id c = Some k))"

text \<open>Truthiness of a nullable integer column: \<^verbatim>\<open>null\<close> and \<^verbatim>\<open>0\<close> are falsy.\<close>

fun truthy_int :: "int option \<Rightarrow> bool" where
  "truthy_int None = False"
| "truthy_int (Some n) = (n \<noteq> 0)"

text \<open>
  The two \<^verbatim>\<open>DELETE\<close> statements of the top-level branch are separate queries, outside
  any transaction: what the first has deleted stays deleted when the second fails.
\<close>

definition delete_comment :: "db \<Rightarrow> request \<Rightarrow> req_user \<Rightarrow> response \<times> db" where
  "delete_comment d req user =
     (case select_comments_by_id d (params_id req) of
        Inl err \<Rightarrow> (handleError err, d)
      | Inr [] \<Rightarrow> (Response 404 (Message ''Comment not found.''), d)
      | Inr (comment # _) \<Rightarrow>
          if c_user_id comment \<noteq> ru_id user
          then (Response 403 (Message ''Not your comment.''), d)
          else if truthy_int (c_parent_id comment)
          then (case delete_comments_by_id d (params_id req) of
                  Inl err \<Rightarrow> (handleError err, d)
                | Inr d' \<Rightarrow> (Response 200 Success, d'))
          else (case delete_comments_by_parent_id d (params_id req) of
                  Inl err \<Rightarrow> (handleError err, d)
                | Inr d1 \<Rightarrow>
                    (case delete_comments_by_id d1 (params_id req) of
                       Inl err \<Rightarrow> (handleError err, d1)
                     | Inr d2 \<Rightarrow> (Response 200 Success, d2))))"

definition delete_api_comments_id :: "env \<Rightarrow> db \<Rightarrow> request \<Rightarrow> response \<times> db" where
  "delete_api_comments_id e d req =
     (case authenticateToken e d req of
        Inl r \<Rightarrow> (r, d)
      | Inr user \<Rightarrow> delete_comment d req user)"

section \<open>The top level of server.js\<close>

text \<open>
  The statements of the module, in the order in which Node runs them when it loads the
  file: a \<^verbatim>\<open>const\<close> or function declaration, a route registered by
  \<^verbatim>\<open>obj.get\<close>, \<^verbatim>\<open>obj.post\<close>, \<^verbatim>\<open>obj.patch\<close> or \<^verbatim>\<open>obj.delete\<close>, a middleware added
  by \<^verbatim>\<open>obj.use\<close>, and \<^verbatim>\<open>obj.listen\<close>. Reading an identifier that nothing declares
  throws a \<^verbatim>\<open>ReferenceError\<close>, which ends the load.
\<close>

datatype stmt =
    Const string
  | Function string
  | Use string
  | Route string string string
  | Listen string

record server =
  declared :: "string list"
  routes :: "(string \<times> string \<times> string) list"
  listening :: bool

fun exec :: "stmt \<Rightarrow> server \<Rightarrow> error + server" where
  "exec (Const x) s = Inr (s\<lparr>declared := x # declared s\<rparr>)"
| "exec (Function f) s = Inr (s\<lparr>declared := f # declared s\<rparr>)"
| "exec (Use obj) s =
     (if obj \<in> set (declared s) then Inr s else Inl (ReferenceError obj))"
| "exec (Route obj method path) s =
     (if obj \<in> set (declared s)
      then Inr (s\<lparr>routes := routes s @ [(obj, method, path)]\<rparr>)
      else Inl (ReferenceError obj))"
| "exec (Listen obj) s =
     (if obj \<in> set (declared s) then Inr (s\<lparr>listening := True\<rparr>)
      else Inl (ReferenceError obj))"

text \<open>Running the statements stops at the first one that throws.\<close>

fun run :: "stmt list \<Rightarrow> server \<Rightarrow> error option \<times> server" where
  "run [] s = (None, s)"
| "run (x # xs) s =
     (case exec x s of Inl err \<Rightarrow> (Some err, s) | Inr s' \<Rightarrow> run xs s')"

definition server_js :: "stmt list" where
  "server_js =
     [Const ''express'', Const ''app'', Const ''cors'', Const ''Pool'', Const ''bcrypt'',
      Const ''jwt'', Const ''multer'', Const ''upload'', Const ''db'', Const ''JWT_SECRET'',
      Function ''handleError'',
      Use ''app'', Use ''app'', Use ''app'',
      Route ''app'' ''get'' ''/api/ping'',
      Function ''authenticateToken'',
      Route ''app'' ''post'' ''/api/register'',
      Route ''app'' ''post'' ''/api/login'',
      Route ''app'' ''get'' ''/api/me'',
      Route ''app'' ''get'' ''/api/ideas'',
      Route ''app'' ''get'' ''/api/my-ideas'',
      Route ''app'' ''get'' ''/api/ideas/:id'',
      Route ''app'' ''post'' ''/api/ideas'',
      Route ''app'' ''patch'' ''/api/ideas/:id'',
      Route ''app'' ''delete'' ''/api/ideas/:id'',
      Route ''app'' ''post'' ''/api/ideas/:id/comments'',
      Route ''app'' ''get'' ''/api/ideas/:id/comments'',
      Route ''app'' ''delete'' ''/api/comments/:id'',
      Route ''app'' ''post'' ''/api/feedback'',
      Route ''api'' ''get'' ''/api/create_table_users'',
      Route ''api'' ''get'' ''/api/create_table_ideas'',
      Route ''api'' ''get'' ''/api/create_table_comments'',
      Route ''api'' ''get'' ''/api/create_table_feedback'',
      Const ''PORT'',
      Listen ''app'',
      Use ''app'', Use ''app'']"

text \<open>The module starts with nothing of its own declared and nothing registered.\<close>

definition fresh :: server where
  "fresh = \<lparr>declared = [], routes = [], listening = False\<rparr>"

text \<open>An endpoint exists when the load has left the server listening with the route
  registered on some object.\<close>

definition endpoint :: "server \<Rightarrow> string \<Rightarrow> string \<Rightarrow> bool" where
  "endpoint s method path =
     (listening s \<and> list_ex (\<lambda>r. fst (snd r) = method \<and> snd (snd r) = path) (routes s))"

section \<open>Concrete inputs\<close>

text \<open>
  Inputs at which the properties below are evaluated: stand-ins for the libraries, two
  registered users, one idea of the first user, and a thread of comments on it. In
  \<open>db_thread\<close> the thread has a top-level comment and one reply; in \<open>db_nested\<close> the reply
  has a reply of its own, which \<^verbatim>\<open>POST /api/ideas/:id/comments\<close> accepts since it only
  passes \<^verbatim>\<open>parentId\<close> on. \<open>db_users\<close> is a database in which only the table
  \<^verbatim>\<open>users\<close> has been created.
\<close>

definition env0 :: env where
  "env0 = \<lparr>bcrypt_hash = (\<lambda>p. ''hashed:'' @ p),
           bcrypt_compare = (\<lambda>p h. h = ''hashed:'' @ p),
           jwt_sign = (\<lambda>i. if i = 1 then ''token-1'' else if i = 2 then ''token-2'' else ''token''),
           jwt_verify = (\<lambda>t. if t = ''token-1'' then Some 1
                              else if t = ''token-2'' then Some 2 else None),
           now = 1000,
           index_fits = (\<lambda>s. length s \<le> 2000)\<rparr>"

definition alice :: user_row where
  "alice = \<lparr>u_id = 1, u_username = ''alice'', u_email = ''alice@example.com'',
            u_password = ''hashed:wonderland'', u_name = ''Alice''\<rparr>"

definition bob :: user_row where
  "bob = \<lparr>u_id = 2, u_username = ''bob'', u_email = ''bob@example.com'',
          u_password = ''hashed:builder'', u_name = ''Bob''\<rparr>"

definition idea1 :: idea_row where
  "idea1 = \<lparr>i_id = 1, i_title = ''Foo'', i_description = Some ''first'',
            i_short_description = None, i_area = None, i_status = Some ''New'',
            i_user_id = 1, i_created_at = Some 900\<rparr>"

definition comment1 :: comment_row where
  "comment1 = \<lparr>c_id = 1, c_idea_id = 1, c_user_id = 1, c_username = ''alice'',
               c_comment = ''top'', c_created_at = Some 910, c_parent_id = None\<rparr>"

definition comment2 :: comment_row where
  "comment2 = \<lparr>c_id = 2, c_idea_id = 1, c_user_id = 2, c_username = ''bob'',
               c_comment = ''reply'', c_created_at = Some 920, c_parent_id = Some 1\<rparr>"

definition comment3 :: comment_row where
  "comment3 = \<lparr>c_id = 3, c_idea_id = 1, c_user_id = 1, c_username = ''alice'',
               c_comment = ''reply to the reply'', c_created_at = Some 930,
               c_parent_id = Some 2\<rparr>"

definition db_users :: db where
  "db_users = \<lparr>users = Some [alice, bob], users_id_seq = 2, ideas = None, ideas_id_seq = 0,
               comments = None\<rparr>"

definition db_ideas :: db where
  "db_ideas = db_users\<lparr>ideas := Some [idea1], ideas_id_seq := 1, comments := Some []\<rparr>"

definition db_thread :: db where
  "db_thread = db_ideas\<lparr>comments := Some [comment1, comment2]\<rparr>"

definition db_nested :: db where
  "db_nested = db_ideas\<lparr>comments := Some [comment1, comment2, comment3]\<rparr>"

text \<open>A request with an \<^verbatim>\<open>Authorization\<close> header, a path parameter and the listed body
  fields.\<close>

definition request_of :: "string \<Rightarrow> int option \<Rightarrow> (string \<times> jsval) list \<Rightarrow> request" where
  "request_of auth p flds =
     \<lparr>authorization = Some auth, params_id = p,
      body = (\<lambda>k. case map_of flds k of None \<Rightarrow> Undefined | Some v \<Rightarrow> v)\<rparr>"

section \<open>Properties\<close>

lemmas fixtures = env0_def alice_def bob_def idea1_def comment1_def comment2_def comment3_def
  db_users_def db_ideas_def db_thread_def db_nested_def request_of_def

lemmas auth_defs = authenticateToken_def load_user_def starts_with_def select_users_by_id_def
  pg_int_def int4_def

lemmas text_defs = texts_accepted_def has_nul_def

subsection \<open>Lists\<close>

lemma find_Some_filter: "find P xs = Some r \<Longrightarrow> \<exists>rs. filter P xs = r # rs"
  by (induction xs) (auto split: if_splits)

lemma find_None_filter: "find P xs = None \<Longrightarrow> filter P xs = []"
  by (induction xs) (auto split: if_splits)

lemma filter_Nil_list_ex: "(filter P xs = []) = (\<not> list_ex P xs)"
  by (induction xs) auto

lemma map_if_unchanged: "\<not> list_ex P xs \<Longrightarrow> map (\<lambda>r. if P r then f r else r) xs = xs"
  by (induction xs) auto

lemma truthy_text: "truthy v \<Longrightarrow> pg_param v = Some (text_of v)"
  by (cases v) (auto simp add: text_of_def)

subsection \<open>The update of an idea\<close>

lemma patch_fields_eq:
  "patch_fields b =
     [(''short_description'', default_to (b ''short_description'') (Str [])),
      (''description'', default_to (b ''description'') (Str [])),
      (''status'', default_to (b ''status'') (Str []))]"
  by (simp add: patch_fields_def default_to_def Let_def)

lemma patch_fields_nonempty: "patch_fields b \<noteq> []"
  by (simp add: patch_fields_eq)

lemma known_patch_fields: "filter (\<lambda>a. \<not> known_column a) (patch_fields b) = []"
  by (simp add: patch_fields_eq known_column_def)

lemma fold_patch_fields:
  "fold set_column (patch_fields b) r =
     r\<lparr>i_short_description := pg_param (default_to (b ''short_description'') (Str [])),
       i_description := pg_param (default_to (b ''description'') (Str [])),
       i_status := pg_param (default_to (b ''status'') (Str []))\<rparr>"
  by (simp add: patch_fields_eq set_column_def)

lemma update_ideas_patch:
  assumes "ideas d = Some rows" and "int4 k"
    and "texts_accepted (map (\<lambda>a. pg_param (snd a)) (patch_fields b))"
  shows "update_ideas d (patch_fields b) (Some k) =
     Inr (map (fold set_column (patch_fields b)) (filter (\<lambda>r. i_id r = k) rows),
          d\<lparr>ideas := Some (map (\<lambda>r. if i_id r = k then fold set_column (patch_fields b) r
                                     else r) rows)\<rparr>)"
  using assms by (simp add: update_ideas_def known_patch_fields pg_int_def Let_def)

text \<open>
  C1, as stated, fails. Bob sends a status that holds the character U+0000 for Alice's
  idea 1, which exists: PostgreSQL refuses the parameter, the update does not succeed, and
  the answer is 500 with the idea unchanged.
\<close>

theorem patch_idea_nul_counterexample:
  "authenticateToken env0 db_ideas
      (request_of ''Bearer token-2'' (Some 1) [(''status'', Str [CHR 0x00])])
     = Inr \<lparr>ru_id = 2, ru_username = ''bob'', ru_email = ''bob@example.com''\<rparr>
   \<and> ideas db_ideas = Some [idea1]
   \<and> find (\<lambda>r. i_id r = 1) [idea1] = Some idea1
   \<and> patch_api_ideas_id env0 db_ideas
        (request_of ''Bearer token-2'' (Some 1) [(''status'', Str [CHR 0x00])])
     = (Response 500 (Message ''Server error.''), db_ideas)"
  by (simp add: fixtures auth_defs text_defs patch_api_ideas_id_def patch_idea_def
      patch_fields_eq default_to_def update_ideas_def known_column_def handleError_def Let_def)

text \<open>
  C1, amended. An authenticated \<^verbatim>\<open>PATCH /api/ideas/:id\<close> whose id is the key of an idea
  (a numeral in the range of \<^verbatim>\<open>INTEGER\<close>, as every key is), and in which none of the three values sent (the value of the body, the empty string when
  the body has no such field) holds the character U+0000, answers 200 with the updated row
  and writes the three columns of every row with that key. Nothing relates the requester to
  the owner of the idea: the hypotheses do not mention \<open>i_user_id\<close>, and the handler gives the
  same result for every \<^verbatim>\<open>req.user\<close>.
\<close>

theorem patch_idea_any_requester:
  assumes "authenticateToken e d req = Inr user"
    and "ideas d = Some rows"
    and "params_id req = Some k"
    and "int4 k"
    and "find (\<lambda>r. i_id r = k) rows = Some r"
    and "texts_accepted (map (\<lambda>a. pg_param (snd a)) (patch_fields (body req)))"
  shows "patch_api_ideas_id e d req =
     (Response 200
        (Idea (r\<lparr>i_short_description :=
                    pg_param (default_to (body req ''short_description'') (Str [])),
                  i_description := pg_param (default_to (body req ''description'') (Str [])),
                  i_status := pg_param (default_to (body req ''status'') (Str []))\<rparr>)),
      d\<lparr>ideas := Some (map (\<lambda>x. if i_id x = k
           then x\<lparr>i_short_description :=
                      pg_param (default_to (body req ''short_description'') (Str [])),
                    i_description := pg_param (default_to (body req ''description'') (Str [])),
                    i_status := pg_param (default_to (body req ''status'') (Str []))\<rparr>
           else x) rows)\<rparr>)
     \<and> (\<forall>other. patch_idea d req other = patch_idea d req user)"
proof -
  obtain rs where f: "filter (\<lambda>r. i_id r = k) rows = r # rs"
    using find_Some_filter[OF assms(5)] by blast
  have "patch_api_ideas_id e d req =
     (Response 200
        (Idea (r\<lparr>i_short_description :=
                    pg_param (default_to (body req ''short_description'') (Str [])),
                  i_description := pg_param (default_to (body req ''description'') (Str [])),
                  i_status := pg_param (default_to (body req ''status'') (Str []))\<rparr>)),
      d\<lparr>ideas := Some (map (\<lambda>x. if i_id x = k
           then x\<lparr>i_short_description :=
                      pg_param (default_to (body req ''short_description'') (Str [])),
                    i_description := pg_param (default_to (body req ''description'') (Str [])),
                    i_status := pg_param (default_to (body req ''status'') (Str []))\<rparr>
           else x) rows)\<rparr>)"
    using assms(1,3) f
    by (simp add: patch_api_ideas_id_def patch_idea_def
        update_ideas_patch[OF assms(2) assms(4) assms(6)]
        patch_fields_nonempty fold_patch_fields Let_def)
  moreover have "\<forall>other. patch_idea d req other = patch_idea d req user"
    by (simp add: patch_idea_def)
  ultimately show ?thesis by simp
qed

text \<open>Bob, who owns no idea, sets the status of Alice's idea; its description, absent from
  the body, becomes the empty string.\<close>

theorem patch_idea_any_requester_witness:
  "i_user_id idea1 \<noteq> 2
   \<and> authenticateToken env0 db_ideas
        (request_of ''Bearer token-2'' (Some 1) [(''status'', Str ''Done'')])
       = Inr \<lparr>ru_id = 2, ru_username = ''bob'', ru_email = ''bob@example.com''\<rparr>
   \<and> patch_api_ideas_id env0 db_ideas
        (request_of ''Bearer token-2'' (Some 1) [(''status'', Str ''Done'')])
       = (Response 200 (Idea (idea1\<lparr>i_short_description := Some [], i_description := Some [],
                                    i_status := Some ''Done''\<rparr>)),
          db_ideas\<lparr>ideas := Some [idea1\<lparr>i_short_description := Some [],
                                          i_description := Some [],
                                          i_status := Some ''Done''\<rparr>]\<rparr>)"
proof -
  let ?req = "request_of ''Bearer token-2'' (Some 1) [(''status'', Str ''Done'')]"
  have a: "authenticateToken env0 db_ideas ?req
      = Inr \<lparr>ru_id = 2, ru_username = ''bob'', ru_email = ''bob@example.com''\<rparr>"
    by (simp add: fixtures auth_defs)
  have i: "ideas db_ideas = Some [idea1]" by (simp add: fixtures)
  have p: "params_id ?req = Some 1" by (simp add: fixtures)
  have r: "int4 1" by (simp add: int4_def)
  have f: "find (\<lambda>r. i_id r = 1) [idea1] = Some idea1" by (simp add: fixtures)
  have t: "texts_accepted (map (\<lambda>a. pg_param (snd a)) (patch_fields (body ?req)))"
    by (simp add: patch_fields_eq request_of_def default_to_def text_defs)
  have o: "i_user_id idea1 \<noteq> 2" by (simp add: fixtures)
  show ?thesis
    using patch_idea_any_requester[OF a i p r f t] a o
    by (simp add: request_of_def default_to_def idea1_def)
qed

text \<open>
  C9. The field list of the update always holds the three columns, so the test
  \<^verbatim>\<open>fields.length === 0\<close> never succeeds: neither the handler nor the route ever answers
  400 with \<^verbatim>\<open>No fields to update.\<close>
\<close>

theorem patch_fields_never_empty:
  "patch_fields (body req) \<noteq> []
   \<and> map fst (patch_fields (body req)) = [''short_description'', ''description'', ''status'']
   \<and> fst (patch_idea d req user) \<noteq> Response 400 (Message ''No fields to update.'')
   \<and> fst (patch_api_ideas_id e d req) \<noteq> Response 400 (Message ''No fields to update.'')"
  by (auto simp add: patch_fields_eq patch_idea_def patch_api_ideas_id_def authenticateToken_def
      handleError_def split: sum.splits list.splits option.splits prod.splits)

text \<open>A body with no field at all still gives the three assignments, each of the empty
  string.\<close>

theorem patch_fields_never_empty_witness:
  "patch_fields (body (request_of ''Bearer token-1'' (Some 1) []))
     = [(''short_description'', Str []), (''description'', Str []), (''status'', Str [])]
   \<and> fst (patch_api_ideas_id env0 db_ideas (request_of ''Bearer token-1'' (Some 1) []))
     \<noteq> Response 400 (Message ''No fields to update.'')"
  using patch_fields_never_empty[of "request_of ''Bearer token-1'' (Some 1) []" db_ideas
      undefined env0]
  by (simp add: patch_fields_eq request_of_def default_to_def)

text \<open>
  C10, as stated, fails. Alice sends \<^verbatim>\<open>PATCH /api/ideas/abc\<close>: no idea has that id, the
  \<^verbatim>\<open>UPDATE\<close> is rejected since \<^verbatim>\<open>abc\<close> is not a numeral, and the answer is 500, not 200.
  The same holds for the id 2147483648, which no \<^verbatim>\<open>INTEGER\<close> key can be.
\<close>

theorem patch_idea_unknown_id_counterexample:
  "authenticateToken env0 db_ideas
      (request_of ''Bearer token-1'' None [(''status'', Str ''Done'')])
     = Inr \<lparr>ru_id = 1, ru_username = ''alice'', ru_email = ''alice@example.com''\<rparr>
   \<and> patch_api_ideas_id env0 db_ideas
        (request_of ''Bearer token-1'' None [(''status'', Str ''Done'')])
     = (Response 500 (Message ''Server error.''), db_ideas)
   \<and> \<not> list_ex (\<lambda>r. i_id r = 2147483648) [idea1]
   \<and> patch_api_ideas_id env0 db_ideas
        (request_of ''Bearer token-1'' (Some 2147483648) [(''status'', Str ''Done'')])
     = (Response 500 (Message ''Server error.''), db_ideas)"
  by (simp add: fixtures auth_defs text_defs patch_api_ideas_id_def patch_idea_def
      patch_fields_eq default_to_def update_ideas_def known_column_def handleError_def Let_def)

text \<open>
  C10, amended. An authenticated \<^verbatim>\<open>PATCH /api/ideas/:id\<close> whose id is a numeral in the
  range of \<^verbatim>\<open>INTEGER\<close> and the key of no idea, and in which none of the three values sent
  holds the character U+0000, answers 200 with the body of \<^verbatim>\<open>res.json(undefined)\<close>, and
  leaves the database as it was.
\<close>

theorem patch_idea_unknown_id:
  assumes "authenticateToken e d req = Inr user"
    and "ideas d = Some rows"
    and "params_id req = Some k"
    and "int4 k"
    and "\<not> list_ex (\<lambda>r. i_id r = k) rows"
    and "texts_accepted (map (\<lambda>a. pg_param (snd a)) (patch_fields (body req)))"
  shows "patch_api_ideas_id e d req = (Response 200 NoBody, d)"
proof -
  have f: "filter (\<lambda>r. i_id r = k) rows = []"
    using assms(5) by (simp add: filter_Nil_list_ex)
  have m: "map (\<lambda>r. if i_id r = k then g r else r) rows = rows" for g
    using assms(5) by (rule map_if_unchanged)
  have "d\<lparr>ideas := Some rows\<rparr> = d"
    using assms(2) by simp
  then show ?thesis
    using assms(1,3) f m
    by (simp add: patch_api_ideas_id_def patch_idea_def
        update_ideas_patch[OF assms(2) assms(4) assms(6)] patch_fields_nonempty Let_def)
qed

theorem patch_idea_unknown_id_witness:
  "\<not> list_ex (\<lambda>r. i_id r = 99) [idea1]
   \<and> patch_api_ideas_id env0 db_ideas
        (request_of ''Bearer token-1'' (Some 99) [(''status'', Str ''Done'')])
       = (Response 200 NoBody, db_ideas)"
proof -
  let ?req = "request_of ''Bearer token-1'' (Some 99) [(''status'', Str ''Done'')]"
  have a: "authenticateToken env0 db_ideas ?req
      = Inr \<lparr>ru_id = 1, ru_username = ''alice'', ru_email = ''alice@example.com''\<rparr>"
    by (simp add: fixtures auth_defs)
  have i: "ideas db_ideas = Some [idea1]" by (simp add: fixtures)
  have p: "params_id ?req = Some 99" by (simp add: fixtures)
  have r: "int4 99" by (simp add: int4_def)
  have n: "\<not> list_ex (\<lambda>r. i_id r = 99) [idea1]" by (simp add: fixtures)
  have t: "texts_accepted (map (\<lambda>a. pg_param (snd a)) (patch_fields (body ?req)))"
    by (simp add: patch_fields_eq request_of_def default_to_def text_defs)
  show ?thesis
    using patch_idea_unknown_id[OF a i p r n t] n by simp
qed

subsection \<open>Login and registration\<close>

text \<open>When the email and the password are text, the two failures of a login are answered
  alike: an email that no user has, and the email of a user with a password that
  \<^verbatim>\<open>bcrypt.compare\<close> finds wrong.\<close>

lemma login_text_failures_identical:
  assumes "users d = Some rows"
    and "truthy (body r1 ''email'')" and "truthy (body r1 ''password'')"
    and "\<not> has_nul (text_of (body r1 ''email''))"
    and "\<not> list_ex (\<lambda>u. u_email u = text_of (body r1 ''email'')) rows"
    and "truthy (body r2 ''email'')" and "body r2 ''password'' = Str pw" and "pw \<noteq> []"
    and "\<not> has_nul (text_of (body r2 ''email''))"
    and "find (\<lambda>u. u_email u = text_of (body r2 ''email'')) rows = Some u"
    and "\<not> bcrypt_compare e pw (u_password u)"
  shows "post_api_login e d r1 = Response 400 (Message ''Invalid credentials.'')
       \<and> post_api_login e d r2 = post_api_login e d r1"
proof -
  have f1: "filter (\<lambda>u. u_email u = text_of (body r1 ''email'')) rows = []"
    using assms(5) by (simp add: filter_Nil_list_ex)
  obtain rs where f2: "filter (\<lambda>u. u_email u = text_of (body r2 ''email'')) rows = u # rs"
    using find_Some_filter[OF assms(10)] by blast
  have unknown: "post_api_login e d r1 = Response 400 (Message ''Invalid credentials.'')"
    using assms(1-4) f1 truthy_text[OF assms(2)]
    by (simp add: post_api_login_def select_users_by_email_def texts_accepted_def Let_def)
  have wrong: "post_api_login e d r2 = Response 400 (Message ''Invalid credentials.'')"
    using assms(1,6-9,11) f2 truthy_text[OF assms(6)]
    by (simp add: post_api_login_def select_users_by_email_def texts_accepted_def
        bcrypt_compare_call_def Let_def)
  show ?thesis
    using unknown wrong by simp
qed

text \<open>
  C7. Two login attempts with the number \<^verbatim>\<open>1\<close> as password, which is truthy and passes
  the test of the handler. With an email that no user has, the answer is 400
  \<^verbatim>\<open>Invalid credentials.\<close> With Alice's email, her row is found and
  \<^verbatim>\<open>bcrypt.compare(1, hash)\<close> rejects, since \<^verbatim>\<open>1\<close> is not a string: the \<^verbatim>\<open>catch\<close> answers
  500 \<^verbatim>\<open>Server error.\<close> The two responses differ, and tell whether the email is registered.
\<close>

theorem login_number_password_leak:
  "\<not> list_ex (\<lambda>u. u_email u = ''carol@example.com'') [alice, bob]
   \<and> find (\<lambda>u. u_email u = ''alice@example.com'') [alice, bob] = Some alice
   \<and> post_api_login env0 db_users
        (request_of [] None
           [(''email'', Str ''carol@example.com''), (''password'', NonString True ''1'')])
     = Response 400 (Message ''Invalid credentials.'')
   \<and> post_api_login env0 db_users
        (request_of [] None
           [(''email'', Str ''alice@example.com''), (''password'', NonString True ''1'')])
     = Response 500 (Message ''Server error.'')"
  by (simp add: fixtures text_defs post_api_login_def select_users_by_email_def
      bcrypt_compare_call_def handleError_def Let_def)

theorem login_number_password_leak_witness:
  "post_api_login env0 db_users
        (request_of [] None
           [(''email'', Str ''alice@example.com''), (''password'', NonString True ''1'')])
     \<noteq> post_api_login env0 db_users
        (request_of [] None
           [(''email'', Str ''carol@example.com''), (''password'', NonString True ''1'')])"
  using login_number_password_leak by simp

lemma register_missing:
  assumes "\<not> (truthy (body req ''username'') \<and> truthy (body req ''email'')
             \<and> truthy (body req ''password'') \<and> truthy (body req ''name''))"
  shows "post_api_register e d req = (Response 400 (Message ''All fields required.''), d)"
  using assms by (auto simp add: post_api_register_def Let_def)

lemma register_taken:
  assumes "truthy (body req ''username'')" and "truthy (body req ''email'')"
    and "truthy (body req ''password'')" and "truthy (body req ''name'')"
    and "users d = Some rows"
    and "\<not> has_nul (text_of (body req ''username''))"
    and "\<not> has_nul (text_of (body req ''email''))"
    and "list_ex (\<lambda>u. u_username u = text_of (body req ''username'')
                   \<or> u_email u = text_of (body req ''email'')) rows"
  shows "post_api_register e d req = (Response 400 (Message ''Username or email taken.''), d)"
proof -
  have "filter (\<lambda>u. u_username u = text_of (body req ''username'')
                   \<or> u_email u = text_of (body req ''email'')) rows \<noteq> []"
    using assms(8) by (simp add: filter_Nil_list_ex)
  then show ?thesis
    using assms(1-7) truthy_text[OF assms(1)] truthy_text[OF assms(2)]
    by (simp add: post_api_register_def select_users_by_username_or_email_def
        texts_accepted_def Let_def)
qed

lemma register_created:
  assumes "truthy (body req ''username'')" and "truthy (body req ''email'')"
    and "body req ''password'' = Str pw" and "pw \<noteq> []" and "truthy (body req ''name'')"
    and "users d = Some rows"
    and "\<not> has_nul (text_of (body req ''username''))"
    and "\<not> has_nul (text_of (body req ''email''))"
    and "\<not> has_nul (text_of (body req ''name''))"
    and "\<not> has_nul (bcrypt_hash e pw)"
    and "\<not> list_ex (\<lambda>u. u_username u = text_of (body req ''username'')
                   \<or> u_email u = text_of (body req ''email'')) rows"
    and "int4 (users_id_seq d + 1)"
    and "\<not> list_ex (\<lambda>u. u_id u = users_id_seq d + 1) rows"
    and "index_fits e (text_of (body req ''username''))"
    and "index_fits e (text_of (body req ''email''))"
  shows "post_api_register e d req =
     (Response 201 Success,
      d\<lparr>users_id_seq := users_id_seq d + 1,
        users := Some (rows @
          [\<lparr>u_id = users_id_seq d + 1, u_username = text_of (body req ''username''),
            u_email = text_of (body req ''email''),
            u_password = bcrypt_hash e pw,
            u_name = text_of (body req ''name'')\<rparr>])\<rparr>)"
proof -
  have f: "filter (\<lambda>u. u_username u = text_of (body req ''username'')
                   \<or> u_email u = text_of (body req ''email'')) rows = []"
    using assms(11) by (simp add: filter_Nil_list_ex)
  have n1: "\<not> list_ex (\<lambda>u. u_username u = text_of (body req ''username'')) rows"
    and n2: "\<not> list_ex (\<lambda>u. u_email u = text_of (body req ''email'')) rows"
    using assms(11) by (auto simp add: list_ex_iff)
  show ?thesis
    using assms(1-10,12-15) f n1 n2 truthy_text[OF assms(1)] truthy_text[OF assms(2)]
      truthy_text[OF assms(5)]
    by (simp add: post_api_register_def select_users_by_username_or_email_def
        insert_user_def bcrypt_hash_call_def texts_accepted_def Let_def)
qed

lemma register_not_created:
  assumes "status_code (fst (post_api_register e d req)) \<noteq> 201"
  shows "users (snd (post_api_register e d req)) = users d"
  using assms
  by (auto simp add: post_api_register_def select_users_by_username_or_email_def
      insert_user_def Let_def handleError_def split: option.splits if_splits sum.splits)

lemma register_201:
  assumes "status_code (fst (post_api_register e d req)) = 201"
  shows "\<exists>old row pw. users d = Some old
      \<and> users (snd (post_api_register e d req)) = Some (old @ [row])
      \<and> body req ''password'' = Str pw
      \<and> u_password row = bcrypt_hash e pw
      \<and> fst (post_api_register e d req) = Response 201 Success"
  using assms
  by (auto simp add: post_api_register_def select_users_by_username_or_email_def
      insert_user_def bcrypt_hash_call_def Let_def handleError_def
      split: option.splits if_splits sum.splits jsval.splits)

text \<open>
  C8, as stated, fails. A registration with Alice's username, which is taken, and an email
  that holds the character U+0000: PostgreSQL refuses the parameters of the duplicate check,
  and the answer is 500 \<^verbatim>\<open>Server error.\<close>, not 400.
\<close>

theorem register_taken_nul_counterexample:
  "list_ex (\<lambda>u. u_username u = ''alice'') [alice, bob]
   \<and> users db_users = Some [alice, bob]
   \<and> post_api_register env0 db_users
        (request_of [] None [(''username'', Str ''alice''), (''email'', Str [CHR 0x00]),
                             (''password'', Str ''pw''), (''name'', Str ''Carol'')])
     = (Response 500 (Message ''Server error.''), db_users)"
  by (simp add: fixtures text_defs post_api_register_def
      select_users_by_username_or_email_def handleError_def Let_def)

text \<open>
  C8, amended. \<^verbatim>\<open>POST /api/register\<close>:
  \<^item> when one of the four fields is missing (or falsy), 400 \<^verbatim>\<open>All fields required.\<close>, the
    database unchanged;
  \<^item> when all four are given, the username and the email hold no U+0000, and a user has the
    same username or the same email, 400 \<^verbatim>\<open>Username or email taken.\<close>, the database
    unchanged;
  \<^item> when all four are given, the password is a string, none of the texts sent holds
    U+0000, no user has the username or the email, the unique indexes take both, and the
    next key is an unused \<^verbatim>\<open>INTEGER\<close>, 201 with \<^verbatim>\<open>{success: true}\<close>, and the table has one more row, which holds
    the four values with \<^verbatim>\<open>bcrypt.hash\<close> of the password in place of the password;
  \<^item> whatever the request, a response other than 201 leaves the rows of \<^verbatim>\<open>users\<close> as they
    were, and a response 201 is \<^verbatim>\<open>{success: true}\<close>, with no token, and has added exactly
    one row, whose password column is the hash of the password.
\<close>

theorem register_outcomes:
  "(\<not> (truthy (body req ''username'') \<and> truthy (body req ''email'')
        \<and> truthy (body req ''password'') \<and> truthy (body req ''name''))
      \<longrightarrow> post_api_register e d req = (Response 400 (Message ''All fields required.''), d))
   \<and> (truthy (body req ''username'') \<and> truthy (body req ''email'')
        \<and> truthy (body req ''password'') \<and> truthy (body req ''name'')
        \<and> users d = Some rows
        \<and> \<not> has_nul (text_of (body req ''username''))
        \<and> \<not> has_nul (text_of (body req ''email''))
        \<and> list_ex (\<lambda>u. u_username u = text_of (body req ''username'')
                       \<or> u_email u = text_of (body req ''email'')) rows
      \<longrightarrow> post_api_register e d req
            = (Response 400 (Message ''Username or email taken.''), d))
   \<and> (truthy (body req ''username'') \<and> truthy (body req ''email'')
        \<and> body req ''password'' = Str pw \<and> pw \<noteq> [] \<and> truthy (body req ''name'')
        \<and> users d = Some rows
        \<and> \<not> has_nul (text_of (body req ''username''))
        \<and> \<not> has_nul (text_of (body req ''email''))
        \<and> \<not> has_nul (text_of (body req ''name''))
        \<and> \<not> has_nul (bcrypt_hash e pw)
        \<and> \<not> list_ex (\<lambda>u. u_username u = text_of (body req ''username'')
                         \<or> u_email u = text_of (body req ''email'')) rows
        \<and> int4 (users_id_seq d + 1)
        \<and> \<not> list_ex (\<lambda>u. u_id u = users_id_seq d + 1) rows
        \<and> index_fits e (text_of (body req ''username''))
        \<and> index_fits e (text_of (body req ''email''))
      \<longrightarrow> post_api_register e d req =
           (Response 201 Success,
            d\<lparr>users_id_seq := users_id_seq d + 1,
              users := Some (rows @
                [\<lparr>u_id = users_id_seq d + 1, u_username = text_of (body req ''username''),
                  u_email = text_of (body req ''email''),
                  u_password = bcrypt_hash e pw,
                  u_name = text_of (body req ''name'')\<rparr>])\<rparr>))
   \<and> (status_code (fst (post_api_register e d req)) \<noteq> 201
      \<longrightarrow> users (snd (post_api_register e d req)) = users d)
   \<and> (status_code (fst (post_api_register e d req)) = 201
      \<longrightarrow> (\<exists>old row p. users d = Some old
             \<and> users (snd (post_api_register e d req)) = Some (old @ [row])
             \<and> body req ''password'' = Str p
             \<and> u_password row = bcrypt_hash e p
             \<and> fst (post_api_register e d req) = Response 201 Success))"
proof -
  have a: "\<not> (truthy (body req ''username'') \<and> truthy (body req ''email'')
        \<and> truthy (body req ''password'') \<and> truthy (body req ''name''))
      \<longrightarrow> post_api_register e d req = (Response 400 (Message ''All fields required.''), d)"
    using register_missing by blast
  have b: "truthy (body req ''username'') \<and> truthy (body req ''email'')
        \<and> truthy (body req ''password'') \<and> truthy (body req ''name'')
        \<and> users d = Some rows
        \<and> \<not> has_nul (text_of (body req ''username''))
        \<and> \<not> has_nul (text_of (body req ''email''))
        \<and> list_ex (\<lambda>u. u_username u = text_of (body req ''username'')
                       \<or> u_email u = text_of (body req ''email'')) rows
      \<longrightarrow> post_api_register e d req
            = (Response 400 (Message ''Username or email taken.''), d)"
    using register_taken by blast
  have c: "truthy (body req ''username'') \<and> truthy (body req ''email'')
        \<and> body req ''password'' = Str pw \<and> pw \<noteq> [] \<and> truthy (body req ''name'')
        \<and> users d = Some rows
        \<and> \<not> has_nul (text_of (body req ''username''))
        \<and> \<not> has_nul (text_of (body req ''email''))
        \<and> \<not> has_nul (text_of (body req ''name''))
        \<and> \<not> has_nul (bcrypt_hash e pw)
        \<and> \<not> list_ex (\<lambda>u. u_username u = text_of (body req ''username'')
                         \<or> u_email u = text_of (body req ''email'')) rows
        \<and> int4 (users_id_seq d + 1)
        \<and> \<not> list_ex (\<lambda>u. u_id u = users_id_seq d + 1) rows
        \<and> index_fits e (text_of (body req ''username''))
        \<and> index_fits e (text_of (body req ''email''))
      \<longrightarrow> post_api_register e d req =
           (Response 201 Success,
            d\<lparr>users_id_seq := users_id_seq d + 1,
              users := Some (rows @
                [\<lparr>u_id = users_id_seq d + 1, u_username = text_of (body req ''username''),
                  u_email = text_of (body req ''email''),
                  u_password = bcrypt_hash e pw,
                  u_name = text_of (body req ''name'')\<rparr>])\<rparr>)"
    using register_created by blast
  have d: "status_code (fst (post_api_register e d req)) \<noteq> 201
      \<longrightarrow> users (snd (post_api_register e d req)) = users d"
    using register_not_created by blast
  have e: "status_code (fst (post_api_register e d req)) = 201
      \<longrightarrow> (\<exists>old row p. users d = Some old
             \<and> users (snd (post_api_register e d req)) = Some (old @ [row])
             \<and> body req ''password'' = Str p
             \<and> u_password row = bcrypt_hash e p
             \<and> fst (post_api_register e d req) = Response 201 Success)"
    using register_201 by blast
  from a b c d e show ?thesis by blast
qed

text \<open>A request without a name; Alice's username with a new address; a new username with
  Bob's address; and Carol, who is new and gets the key 3 and a hashed password.\<close>

theorem register_outcomes_witness:
  "post_api_register env0 db_users
      (request_of [] None [(''username'', Str ''carol''), (''email'', Str ''carol@example.com''),
                           (''password'', Str ''pw'')])
     = (Response 400 (Message ''All fields required.''), db_users)
   \<and> post_api_register env0 db_users
      (request_of [] None [(''username'', Str ''alice''), (''email'', Str ''carol@example.com''),
                           (''password'', Str ''pw''), (''name'', Str ''Carol'')])
     = (Response 400 (Message ''Username or email taken.''), db_users)
   \<and> post_api_register env0 db_users
      (request_of [] None [(''username'', Str ''carol''), (''email'', Str ''bob@example.com''),
                           (''password'', Str ''pw''), (''name'', Str ''Carol'')])
     = (Response 400 (Message ''Username or email taken.''), db_users)
   \<and> post_api_register env0 db_users
      (request_of [] None [(''username'', Str ''carol''), (''email'', Str ''carol@example.com''),
                           (''password'', Str ''pw''), (''name'', Str ''Carol'')])
     = (Response 201 Success,
        db_users\<lparr>users_id_seq := 3,
          users := Some [alice, bob,
            \<lparr>u_id = 3, u_username = ''carol'', u_email = ''carol@example.com'',
              u_password = ''hashed:pw'', u_name = ''Carol''\<rparr>]\<rparr>)"
proof -
  let ?missing = "request_of [] None
      [(''username'', Str ''carol''), (''email'', Str ''carol@example.com''),
       (''password'', Str ''pw'')]"
  let ?name_taken = "request_of [] None
      [(''username'', Str ''alice''), (''email'', Str ''carol@example.com''),
       (''password'', Str ''pw''), (''name'', Str ''Carol'')]"
  let ?email_taken = "request_of [] None
      [(''username'', Str ''carol''), (''email'', Str ''bob@example.com''),
       (''password'', Str ''pw''), (''name'', Str ''Carol'')]"
  let ?new = "request_of [] None
      [(''username'', Str ''carol''), (''email'', Str ''carol@example.com''),
       (''password'', Str ''pw''), (''name'', Str ''Carol'')]"
  have a: "post_api_register env0 db_users ?missing
      = (Response 400 (Message ''All fields required.''), db_users)"
    using register_outcomes[where req = ?missing and e = env0 and d = db_users]
    by (simp add: request_of_def)
  have b: "post_api_register env0 db_users ?name_taken
      = (Response 400 (Message ''Username or email taken.''), db_users)"
    using register_outcomes[where req = ?name_taken and e = env0 and d = db_users
        and rows = "[alice, bob]"]
    by (simp add: fixtures text_of_def has_nul_def)
  have c: "post_api_register env0 db_users ?email_taken
      = (Response 400 (Message ''Username or email taken.''), db_users)"
    using register_outcomes[where req = ?email_taken and e = env0 and d = db_users
        and rows = "[alice, bob]"]
    by (simp add: fixtures text_of_def has_nul_def)
  have d: "post_api_register env0 db_users ?new
     = (Response 201 Success,
        db_users\<lparr>users_id_seq := 3,
          users := Some [alice, bob,
            \<lparr>u_id = 3, u_username = ''carol'', u_email = ''carol@example.com'',
              u_password = ''hashed:pw'', u_name = ''Carol''\<rparr>]\<rparr>)"
    using register_outcomes[where req = ?new and e = env0 and d = db_users
        and rows = "[alice, bob]" and pw = "''pw''"]
    by (simp add: fixtures text_of_def has_nul_def int4_def)
  from a b c d show ?thesis by simp
qed

subsection \<open>Deleting a comment\<close>

lemma delete_comment_not_found:
  assumes "comments d = Some rows" and "params_id req = Some k" and "int4 k"
    and "find (\<lambda>c. c_id c = k) rows = None"
  shows "delete_comment d req user = (Response 404 (Message ''Comment not found.''), d)"
  using assms(1-3) find_None_filter[OF assms(4)]
  by (simp add: delete_comment_def select_comments_by_id_def pg_int_def)

lemma delete_comment_forbidden:
  assumes "comments d = Some rows" and "params_id req = Some k" and "int4 k"
    and "find (\<lambda>c. c_id c = k) rows = Some c" and "c_user_id c \<noteq> ru_id user"
  shows "delete_comment d req user = (Response 403 (Message ''Not your comment.''), d)"
proof -
  obtain rs where "filter (\<lambda>c. c_id c = k) rows = c # rs"
    using find_Some_filter[OF assms(4)] by blast
  then show ?thesis
    using assms(1-3,5) by (simp add: delete_comment_def select_comments_by_id_def pg_int_def)
qed

text \<open>A \<^verbatim>\<open>DELETE\<close> goes through when no comment that stays refers to one that goes.\<close>

lemma delete_comments_where_accepted:
  assumes "comments d = Some rows"
    and "\<not> list_ex (\<lambda>c. \<not> w c \<and> list_ex (\<lambda>g. w g \<and> c_parent_id c = Some (c_id g)) rows) rows"
  shows "delete_comments_where d w = Inr (d\<lparr>comments := Some (filter (\<lambda>c. \<not> w c) rows)\<rparr>)"
  using assms by (auto simp add: delete_comments_where_def Let_def list_ex_iff)

lemma delete_comment_top_level:
  assumes "comments d = Some rows" and "params_id req = Some k" and "int4 k"
    and "find (\<lambda>c. c_id c = k) rows = Some c" and "c_user_id c = ru_id user"
    and "c_parent_id c = None"
    and "\<not> list_ex (\<lambda>x. c_parent_id x \<noteq> Some k
           \<and> list_ex (\<lambda>g. c_parent_id g = Some k \<and> c_parent_id x = Some (c_id g)) rows) rows"
  shows "delete_comments_by_parent_id d (params_id req)
           = Inr (d\<lparr>comments := Some (filter (\<lambda>x. c_parent_id x \<noteq> Some k) rows)\<rparr>)
       \<and> delete_comments_by_id
             (d\<lparr>comments := Some (filter (\<lambda>x. c_parent_id x \<noteq> Some k) rows)\<rparr>)
             (params_id req)
           = Inr (d\<lparr>comments := Some (filter (\<lambda>x. c_id x \<noteq> k)
                                     (filter (\<lambda>x. c_parent_id x \<noteq> Some k) rows))\<rparr>)
       \<and> delete_comment d req user =
           (Response 200 Success,
            d\<lparr>comments := Some (filter (\<lambda>x. c_id x \<noteq> k)
                                  (filter (\<lambda>x. c_parent_id x \<noteq> Some k) rows))\<rparr>)"
proof -
  obtain rs where f: "filter (\<lambda>c. c_id c = k) rows = c # rs"
    using find_Some_filter[OF assms(4)] by blast
  let ?kept = "filter (\<lambda>x. c_parent_id x \<noteq> Some k) rows"
  let ?d1 = "d\<lparr>comments := Some ?kept\<rparr>"
  have s1: "delete_comments_by_parent_id d (params_id req) = Inr ?d1"
    using delete_comments_where_accepted[OF assms(1), of "\<lambda>c. c_parent_id c = Some k"]
      assms(2,3,7)
    by (simp add: delete_comments_by_parent_id_def pg_int_def)
  have c1: "comments ?d1 = Some ?kept"
    by simp
  have "\<not> list_ex (\<lambda>c. c_id c \<noteq> k
          \<and> list_ex (\<lambda>g. c_id g = k \<and> c_parent_id c = Some (c_id g)) ?kept) ?kept"
    by (auto simp add: list_ex_iff)
  then have s2: "delete_comments_by_id ?d1 (params_id req)
      = Inr (d\<lparr>comments := Some (filter (\<lambda>x. c_id x \<noteq> k) ?kept)\<rparr>)"
    using delete_comments_where_accepted[OF c1, of "\<lambda>c. c_id c = k"] assms(2,3)
    by (simp add: delete_comments_by_id_def pg_int_def)
  have s3: "delete_comment d req user =
           (Response 200 Success, d\<lparr>comments := Some (filter (\<lambda>x. c_id x \<noteq> k) ?kept)\<rparr>)"
    using assms(1,2,3,5,6) f s1 s2
    by (simp add: delete_comment_def select_comments_by_id_def pg_int_def)
  show ?thesis
    using s1 s2 s3 by simp
qed

text \<open>A reply whose \<^verbatim>\<open>parent_id\<close> is 0 is falsy for the handler and takes the branch of
  a top-level comment; when no other comment refers to it the result is the same.\<close>

lemma delete_comment_reply:
  assumes "comments d = Some rows" and "params_id req = Some k" and "int4 k"
    and "find (\<lambda>c. c_id c = k) rows = Some c" and "c_user_id c = ru_id user"
    and "c_parent_id c = Some p"
    and "\<not> list_ex (\<lambda>x. c_id x \<noteq> k \<and> c_parent_id x = Some k) rows"
  shows "delete_comment d req user =
           (Response 200 Success, d\<lparr>comments := Some (filter (\<lambda>x. c_id x \<noteq> k) rows)\<rparr>)"
proof -
  obtain rs where f: "filter (\<lambda>c. c_id c = k) rows = c # rs"
    using find_Some_filter[OF assms(4)] by blast
  show ?thesis
  proof (cases "p = 0")
    case False
    have "\<not> list_ex (\<lambda>c. c_id c \<noteq> k
            \<and> list_ex (\<lambda>g. c_id g = k \<and> c_parent_id c = Some (c_id g)) rows) rows"
      using assms(7) by (auto simp add: list_ex_iff)
    then have "delete_comments_by_id d (params_id req)
        = Inr (d\<lparr>comments := Some (filter (\<lambda>x. c_id x \<noteq> k) rows)\<rparr>)"
      using delete_comments_where_accepted[OF assms(1), of "\<lambda>c. c_id c = k"] assms(2,3)
      by (simp add: delete_comments_by_id_def pg_int_def)
    then show ?thesis
      using assms(1,2,3,5,6) f False
      by (simp add: delete_comment_def select_comments_by_id_def pg_int_def)
  next
    case True
    let ?kept = "filter (\<lambda>x. c_parent_id x \<noteq> Some k) rows"
    have "\<not> list_ex (\<lambda>x. c_parent_id x \<noteq> Some k
           \<and> list_ex (\<lambda>g. c_parent_id g = Some k \<and> c_parent_id x = Some (c_id g)) rows) rows"
      using assms(7) by (auto simp add: list_ex_iff)
    then have s1: "delete_comments_by_parent_id d (params_id req)
        = Inr (d\<lparr>comments := Some ?kept\<rparr>)"
      using delete_comments_where_accepted[OF assms(1), of "\<lambda>c. c_parent_id c = Some k"]
        assms(2,3)
      by (simp add: delete_comments_by_parent_id_def pg_int_def)
    have c1: "comments (d\<lparr>comments := Some ?kept\<rparr>) = Some ?kept"
      by simp
    have "\<not> list_ex (\<lambda>c. c_id c \<noteq> k
            \<and> list_ex (\<lambda>g. c_id g = k \<and> c_parent_id c = Some (c_id g)) ?kept) ?kept"
      by (auto simp add: list_ex_iff)
    then have s2: "delete_comments_by_id (d\<lparr>comments := Some ?kept\<rparr>) (params_id req)
        = Inr (d\<lparr>comments := Some (filter (\<lambda>x. c_id x \<noteq> k) ?kept)\<rparr>)"
      using delete_comments_where_accepted[OF c1, of "\<lambda>c. c_id c = k"] assms(2,3)
      by (simp add: delete_comments_by_id_def pg_int_def)
    have same: "filter (\<lambda>x. c_id x \<noteq> k) ?kept = filter (\<lambda>x. c_id x \<noteq> k) rows"
      using assms(7) by (auto simp add: list_ex_iff intro: filter_cong)
    show ?thesis
      using assms(1,2,3,5,6) f s1 s2 same True
      by (simp add: delete_comment_def select_comments_by_id_def pg_int_def)
  qed
qed

text \<open>
  C4, as stated, fails. In \<open>db_nested\<close> Alice deletes her top-level comment 1
  (\<^verbatim>\<open>parent_id\<close> NULL). Its reply, comment 2, has the reply comment 3, so
  \<^verbatim>\<open>DELETE FROM comments WHERE parent_id = 1\<close> is refused by the foreign key of
  \<^verbatim>\<open>parent_id\<close>: the answer is 500 and neither the reply nor the comment is deleted.
  And for the id 2147483648, which no comment has and which is out of the range of
  \<^verbatim>\<open>INTEGER\<close>, the \<^verbatim>\<open>SELECT\<close> is rejected: the answer is 500, not 404.
\<close>

theorem delete_comment_nested_counterexample:
  "authenticateToken env0 db_nested (request_of ''Bearer token-1'' (Some 1) [])
     = Inr \<lparr>ru_id = 1, ru_username = ''alice'', ru_email = ''alice@example.com''\<rparr>
   \<and> comments db_nested = Some [comment1, comment2, comment3]
   \<and> find (\<lambda>c. c_id c = 1) [comment1, comment2, comment3] = Some comment1
   \<and> c_user_id comment1 = 1
   \<and> c_parent_id comment1 = None
   \<and> delete_api_comments_id env0 db_nested (request_of ''Bearer token-1'' (Some 1) [])
     = (Response 500 (Message ''Server error.''), db_nested)
   \<and> comments (snd (delete_api_comments_id env0 db_nested
                       (request_of ''Bearer token-1'' (Some 1) [])))
     \<noteq> Some (filter (\<lambda>x. c_id x \<noteq> 1)
               (filter (\<lambda>x. c_parent_id x \<noteq> Some 1) [comment1, comment2, comment3]))
   \<and> find (\<lambda>c. c_id c = 2147483648) [comment1, comment2, comment3] = None
   \<and> delete_api_comments_id env0 db_nested
        (request_of ''Bearer token-1'' (Some 2147483648) [])
     = (Response 500 (Message ''Server error.''), db_nested)"
  by (simp add: fixtures auth_defs delete_api_comments_id_def delete_comment_def
      select_comments_by_id_def delete_comments_by_id_def delete_comments_by_parent_id_def
      delete_comments_where_def handleError_def pg_int_def Let_def)

text \<open>
  C4, amended. For an authenticated \<^verbatim>\<open>DELETE /api/comments/:id\<close> whose id is a numeral
  \<open>k\<close> in the range of \<^verbatim>\<open>INTEGER\<close>:
  \<^item> no comment has the id: 404, nothing deleted;
  \<^item> the comment is not the requester's: 403, nothing deleted;
  \<^item> the comment is the requester's, its \<^verbatim>\<open>parent_id\<close> is NULL, and no comment outside its
    replies refers to one of its replies: first every comment with \<^verbatim>\<open>parent_id = k\<close> is
    deleted, then, on the result, every comment with \<^verbatim>\<open>id = k\<close>, and the answer is 200;
  \<^item> the comment is the requester's, its \<^verbatim>\<open>parent_id\<close> is not NULL, and no other comment
    refers to it: only the comments with \<^verbatim>\<open>id = k\<close> are deleted, and the answer is 200.
\<close>

theorem delete_comment_two_level:
  assumes "authenticateToken e d req = Inr user"
    and "comments d = Some rows"
    and "params_id req = Some k"
    and "int4 k"
  shows "(find (\<lambda>c. c_id c = k) rows = None
        \<longrightarrow> delete_api_comments_id e d req
              = (Response 404 (Message ''Comment not found.''), d))
     \<and> (find (\<lambda>c. c_id c = k) rows = Some c \<and> c_user_id c \<noteq> ru_id user
        \<longrightarrow> delete_api_comments_id e d req
              = (Response 403 (Message ''Not your comment.''), d))
     \<and> (find (\<lambda>c. c_id c = k) rows = Some c \<and> c_user_id c = ru_id user
          \<and> c_parent_id c = None
          \<and> \<not> list_ex (\<lambda>x. c_parent_id x \<noteq> Some k
                \<and> list_ex (\<lambda>g. c_parent_id g = Some k \<and> c_parent_id x = Some (c_id g)) rows)
              rows
        \<longrightarrow> delete_comments_by_parent_id d (params_id req)
              = Inr (d\<lparr>comments := Some (filter (\<lambda>x. c_parent_id x \<noteq> Some k) rows)\<rparr>)
            \<and> delete_comments_by_id
                (d\<lparr>comments := Some (filter (\<lambda>x. c_parent_id x \<noteq> Some k) rows)\<rparr>)
                (params_id req)
              = Inr (d\<lparr>comments := Some (filter (\<lambda>x. c_id x \<noteq> k)
                                        (filter (\<lambda>x. c_parent_id x \<noteq> Some k) rows))\<rparr>)
            \<and> delete_api_comments_id e d req
              = (Response 200 Success,
                 d\<lparr>comments := Some (filter (\<lambda>x. c_id x \<noteq> k)
                                       (filter (\<lambda>x. c_parent_id x \<noteq> Some k) rows))\<rparr>))
     \<and> (find (\<lambda>c. c_id c = k) rows = Some c \<and> c_user_id c = ru_id user
          \<and> c_parent_id c = Some p
          \<and> \<not> list_ex (\<lambda>x. c_id x \<noteq> k \<and> c_parent_id x = Some k) rows
        \<longrightarrow> delete_api_comments_id e d req
              = (Response 200 Success,
                 d\<lparr>comments := Some (filter (\<lambda>x. c_id x \<noteq> k) rows)\<rparr>))"
proof -
  have route: "delete_api_comments_id e d req = delete_comment d req user"
    using assms(1) by (simp add: delete_api_comments_id_def)
  show ?thesis
    unfolding route
    using delete_comment_not_found[OF assms(2,3,4)] delete_comment_forbidden[OF assms(2,3,4)]
      delete_comment_top_level[OF assms(2,3,4)] delete_comment_reply[OF assms(2,3,4)]
    by blast
qed

text \<open>In the two-level thread \<open>db_thread\<close>: an unknown id; Bob on Alice's comment; Alice
  on her top-level comment, which takes Bob's reply with it; Bob on his reply, which leaves
  Alice's comment.\<close>

theorem delete_comment_two_level_witness:
  "delete_api_comments_id env0 db_thread (request_of ''Bearer token-1'' (Some 99) [])
     = (Response 404 (Message ''Comment not found.''), db_thread)
   \<and> delete_api_comments_id env0 db_thread (request_of ''Bearer token-2'' (Some 1) [])
     = (Response 403 (Message ''Not your comment.''), db_thread)
   \<and> delete_api_comments_id env0 db_thread (request_of ''Bearer token-1'' (Some 1) [])
     = (Response 200 Success, db_thread\<lparr>comments := Some []\<rparr>)
   \<and> delete_api_comments_id env0 db_thread (request_of ''Bearer token-2'' (Some 2) [])
     = (Response 200 Success, db_thread\<lparr>comments := Some [comment1]\<rparr>)"
proof -
  have rows: "comments db_thread = Some [comment1, comment2]"
    by (simp add: fixtures)
  have alice_in: "authenticateToken env0 db_thread (request_of ''Bearer token-1'' p [])
      = Inr \<lparr>ru_id = 1, ru_username = ''alice'', ru_email = ''alice@example.com''\<rparr>" for p
    by (simp add: fixtures auth_defs)
  have bob_in: "authenticateToken env0 db_thread (request_of ''Bearer token-2'' p [])
      = Inr \<lparr>ru_id = 2, ru_username = ''bob'', ru_email = ''bob@example.com''\<rparr>" for p
    by (simp add: fixtures auth_defs)
  have par: "params_id (request_of a (Some k) []) = Some k" for a k
    by (simp add: request_of_def)
  have r99: "int4 99" and r1: "int4 1" and r2: "int4 2"
    by (simp_all add: int4_def)
  have a: "delete_api_comments_id env0 db_thread (request_of ''Bearer token-1'' (Some 99) [])
      = (Response 404 (Message ''Comment not found.''), db_thread)"
    using delete_comment_two_level[OF alice_in rows par r99]
    by (simp add: comment1_def comment2_def)
  have b: "delete_api_comments_id env0 db_thread (request_of ''Bearer token-2'' (Some 1) [])
      = (Response 403 (Message ''Not your comment.''), db_thread)"
    using delete_comment_two_level[OF bob_in rows par r1, of comment1]
    by (simp add: comment1_def comment2_def)
  have c: "delete_api_comments_id env0 db_thread (request_of ''Bearer token-1'' (Some 1) [])
      = (Response 200 Success, db_thread\<lparr>comments := Some []\<rparr>)"
    using delete_comment_two_level[OF alice_in rows par r1, of comment1]
    by (simp add: comment1_def comment2_def)
  have d: "delete_api_comments_id env0 db_thread (request_of ''Bearer token-2'' (Some 2) [])
      = (Response 200 Success, db_thread\<lparr>comments := Some [comment1]\<rparr>)"
    using delete_comment_two_level[OF bob_in rows par r2, of comment2 1]
    by (simp add: comment1_def comment2_def)
  from a b c d show ?thesis by simp
qed

subsection \<open>Creating and deleting an idea\<close>

text \<open>
  C3. Alice posts an idea with a title and no status. The \<^verbatim>\<open>INSERT\<close> lists the column
  \<^verbatim>\<open>status\<close> and passes \<^verbatim>\<open>undefined\<close> for it, which is stored as NULL: the default
  \<^verbatim>\<open>'New'\<close> of the table is not applied. \<^verbatim>\<open>GET /api/ideas/:id\<close> then returns the idea
  with the creator's id and username, and with \<^verbatim>\<open>status\<close> NULL.
\<close>

theorem created_idea_status_is_null:
  "post_api_ideas env0 db_ideas (request_of ''Bearer token-1'' None [(''title'', Str ''Foo'')])
     = (Inr (Response 201 Success),
        db_ideas\<lparr>ideas_id_seq := 2,
          ideas := Some [idea1,
            \<lparr>i_id = 2, i_title = ''Foo'', i_description = None, i_short_description = None,
              i_area = None, i_status = None, i_user_id = 1, i_created_at = Some 1000\<rparr>]\<rparr>)
   \<and> get_api_ideas_id env0
        (snd (post_api_ideas env0 db_ideas
                (request_of ''Bearer token-1'' None [(''title'', Str ''Foo'')])))
        (request_of ''Bearer token-1'' (Some 2) [])
     = Response 200
         (IdeaOwner
            \<lparr>i_id = 2, i_title = ''Foo'', i_description = None, i_short_description = None,
              i_area = None, i_status = None, i_user_id = 1, i_created_at = Some 1000\<rparr>
            1 ''Alice'' ''alice'')"
  by (simp add: fixtures auth_defs text_defs post_api_ideas_def post_ideas_def insert_idea_def
      get_api_ideas_id_def get_idea_def select_idea_owner_def stored_def Let_def)

text \<open>The default is stored for a column that the statement leaves out, not for one it
  lists with NULL; and what the handler stores as the status is the status of the body,
  whatever the request: NULL when the body has none.\<close>

lemma status_default_when_unlisted:
  "stored (Some ''New'') Unlisted = Some ''New'' \<and> stored (Some ''New'') (Listed None) = None"
  by (simp add: stored_def)

lemma post_ideas_status_stored:
  assumes "post_ideas e d req user = (Inr (Response 201 Success), d')"
  shows "\<exists>old row. ideas d = Some old \<and> ideas d' = Some (old @ [row])
      \<and> i_status row = pg_param (body req ''status'')"
  using assms
  by (auto simp add: post_ideas_def insert_idea_def stored_def Let_def
      split: if_splits option.splits)

text \<open>
  C5. In \<open>db_thread\<close> Alice deletes her own idea 1, on which there are comments.
  \<^verbatim>\<open>DELETE FROM ideas WHERE id = 1\<close> is refused by the foreign key of
  \<^verbatim>\<open>comments.idea_id\<close>: the answer is 500, nothing is deleted, and
  \<^verbatim>\<open>GET /api/ideas/1\<close> still returns the idea.
\<close>

theorem delete_commented_idea_fails:
  "authenticateToken env0 db_thread (request_of ''Bearer token-1'' (Some 1) [])
     = Inr \<lparr>ru_id = 1, ru_username = ''alice'', ru_email = ''alice@example.com''\<rparr>
   \<and> i_user_id idea1 = 1
   \<and> delete_api_ideas_id env0 db_thread (request_of ''Bearer token-1'' (Some 1) [])
     = (Response 500 (Message ''Server error.''), db_thread)
   \<and> get_api_ideas_id env0
        (snd (delete_api_ideas_id env0 db_thread (request_of ''Bearer token-1'' (Some 1) [])))
        (request_of ''Bearer token-1'' (Some 1) [])
     = Response 200 (IdeaOwner idea1 1 ''Alice'' ''alice'')"
  by (simp add: fixtures auth_defs delete_api_ideas_id_def delete_idea_def
      select_ideas_by_id_def delete_ideas_by_id_def get_api_ideas_id_def get_idea_def
      select_idea_owner_def handleError_def pg_int_def Let_def)

text \<open>The rest of C5 holds: a requester who does not own the idea gets 403 and nothing is
  deleted, and the owner of an idea without comments gets 200 and the idea is gone.\<close>

lemma delete_idea_not_owner:
  assumes "ideas d = Some rows" and "params_id req = Some k"
    and "find (\<lambda>r. i_id r = k) rows = Some r" and "i_user_id r \<noteq> ru_id user"
    and "int4 k"
  shows "delete_idea d req user = (Response 403 (Message ''Not your idea.''), d)"
proof -
  obtain rs where "filter (\<lambda>r. i_id r = k) rows = r # rs"
    using find_Some_filter[OF assms(3)] by blast
  then show ?thesis
    using assms(1,2,4,5) by (simp add: delete_idea_def select_ideas_by_id_def pg_int_def)
qed

lemma delete_idea_owner_no_comments:
  assumes "ideas d = Some rows" and "params_id req = Some k"
    and "find (\<lambda>r. i_id r = k) rows = Some r" and "i_user_id r = ru_id user"
    and "comments d = Some cs" and "\<not> list_ex (\<lambda>c. c_idea_id c = k) cs"
    and "int4 k"
  shows "delete_idea d req user
           = (Response 200 Success, d\<lparr>ideas := Some (filter (\<lambda>r. i_id r \<noteq> k) rows)\<rparr>)
       \<and> \<not> list_ex (\<lambda>r. i_id r = k) (filter (\<lambda>r. i_id r \<noteq> k) rows)"
proof -
  obtain rs where "filter (\<lambda>r. i_id r = k) rows = r # rs"
    using find_Some_filter[OF assms(3)] by blast
  then have "delete_idea d req user
           = (Response 200 Success, d\<lparr>ideas := Some (filter (\<lambda>r. i_id r \<noteq> k) rows)\<rparr>)"
    using assms(1,2,4,5,6,7)
    by (simp add: delete_idea_def select_ideas_by_id_def delete_ideas_by_id_def pg_int_def)
  moreover have "\<not> list_ex (\<lambda>r. i_id r = k) (filter (\<lambda>r. i_id r \<noteq> k) rows)"
    by (simp add: list_ex_iff)
  ultimately show ?thesis by simp
qed

subsection \<open>Failures that leave a handler\<close>

text \<open>
  C6. In \<open>db_users\<close> the table \<^verbatim>\<open>ideas\<close> does not exist. Alice's \<^verbatim>\<open>POST /api/ideas\<close>
  passes the middleware, the \<^verbatim>\<open>INSERT\<close> is rejected, and the handler, which has no
  \<^verbatim>\<open>try\<close>, sends nothing: the rejection leaves it. On the same database the handler of
  \<^verbatim>\<open>PATCH /api/ideas/:id\<close> catches the rejection of its query and answers 500.
\<close>

theorem post_ideas_rejection_escapes:
  "authenticateToken env0 db_users
      (request_of ''Bearer token-1'' None [(''title'', Str ''Foo'')])
     = Inr \<lparr>ru_id = 1, ru_username = ''alice'', ru_email = ''alice@example.com''\<rparr>
   \<and> post_api_ideas env0 db_users
        (request_of ''Bearer token-1'' None [(''title'', Str ''Foo'')])
     = (Inl (UndefinedTable ''ideas''), db_users)
   \<and> patch_api_ideas_id env0 db_users
        (request_of ''Bearer token-1'' (Some 1) [(''status'', Str ''Done'')])
     = (Response 500 (Message ''Server error.''), db_users)"
  by (simp add: fixtures auth_defs post_api_ideas_def post_ideas_def insert_idea_def
      patch_api_ideas_id_def patch_idea_def update_ideas_def patch_fields_nonempty
      handleError_def Let_def)

subsection \<open>Loading the module\<close>

text \<open>
  C2. The four \<^verbatim>\<open>create_table\<close> routes are registered on \<^verbatim>\<open>api\<close>, which nothing declares.
  Loading \<^verbatim>\<open>server.js\<close> throws \<^verbatim>\<open>ReferenceError: api is not defined\<close> at the first of
  them: none of the four routes is registered, and \<^verbatim>\<open>app.listen\<close>, which comes later,
  is never reached. (The properties of the other handlers, above, are properties of the
  functions that the statements before this one have registered on \<^verbatim>\<open>app\<close>.)
\<close>

theorem create_table_routes_not_registered:
  "fst (run server_js fresh) = Some (ReferenceError ''api'')
   \<and> \<not> listening (snd (run server_js fresh))
   \<and> \<not> endpoint (snd (run server_js fresh)) ''get'' ''/api/create_table_users''
   \<and> \<not> endpoint (snd (run server_js fresh)) ''get'' ''/api/create_table_ideas''
   \<and> \<not> endpoint (snd (run server_js fresh)) ''get'' ''/api/create_table_comments''
   \<and> \<not> endpoint (snd (run server_js fresh)) ''get'' ''/api/create_table_feedback''
   \<and> \<not> list_ex (\<lambda>r. snd (snd r) = ''/api/create_table_users'')
          (routes (snd (run server_js fresh)))"
  by (simp add: server_js_def fresh_def endpoint_def)

end
